theory Spec2Isabelle
  imports Complex_Main "HOL-Library.AList"
begin

section \<open>Conventions of the embedding\<close>

text \<open>
  Every service of the repository is a module holding global \<^verbatim>\<open>Map\<close> objects that its
  exported functions mutate. The embedding passes the module state explicitly: each
  function takes the state and returns its result together with the new state.

  \<^item> A JavaScript \<^verbatim>\<open>Map<string, V>\<close> is an association list in insertion order:
    \<^verbatim>\<open>get\<close> is \<open>map_of\<close>, \<^verbatim>\<open>set\<close> is \<open>AList.update\<close> (an existing key keeps its position,
    a new key is appended), \<^verbatim>\<open>delete\<close> is \<open>AList.delete\<close>. Mutating a field of an
    object held in a map is an update of that key.
  \<^item> A \<^verbatim>\<open>Set<string>\<close> is a list without duplicates in insertion order.
  \<^item> \<^verbatim>\<open>Date.now()\<close> and \<^verbatim>\<open>new Date()\<close> are an argument \<open>now\<close> (milliseconds, an \<open>int\<close>);
    one call of an exported function reads one clock value.
  \<^item> Random identifiers (\<^verbatim>\<open>crypto.randomUUID()\<close>, \<^verbatim>\<open>randomBytes\<close>) are arguments.
  \<^item> A JavaScript \<^verbatim>\<open>number\<close> that holds a count or a time is an \<open>int\<close> or a \<open>nat\<close>; one
    that holds an amount, a price or a multiplier is a \<open>real\<close>, so arithmetic is exact
    and the values \<^verbatim>\<open>NaN\<close> and \<^verbatim>\<open>Infinity\<close> are outside the model.
  \<^item> An optional field is an \<open>option\<close>.
  \<^item> Field \<^verbatim>\<open>f\<close> of an interface is named with the initials of the interface in front
    (\<^verbatim>\<open>PaymentSession.status\<close> is \<open>ps_status\<close>), because several interfaces share
    field names.
\<close>

definition set_add :: "string \<Rightarrow> string list \<Rightarrow> string list" where
  "set_add x xs = (if x \<in> set xs then xs else xs @ [x])"


section \<open>Payment session store\<close>

datatype session_status = Pending | Paid | Expired | Used

record PaymentSession =
  ps_sessionId :: string
  ps_walletAddress :: string
  ps_agentId :: string
  ps_resource :: string
  ps_amountRequired :: string
  ps_status :: session_status
  ps_createdAt :: int
  ps_expiresAt :: int
  ps_paidAt :: "int option"
  ps_transactionSignature :: "string option"
  ps_usedAt :: "int option"

definition config_expirationMinutes :: int where
  "config_expirationMinutes = 5"

record session_store =
  sessions :: "(string \<times> PaymentSession) list"
  walletSessions :: "(string \<times> string list) list"

definition createSession ::
  "string \<Rightarrow> int \<Rightarrow> string \<Rightarrow> string \<Rightarrow> string \<Rightarrow> string \<Rightarrow> session_store
    \<Rightarrow> PaymentSession \<times> session_store" where
  "createSession sessionId now walletAddress agentId resource amountRequired st =
     (let expiresAt = now + config_expirationMinutes * 60 * 1000;
          session = \<lparr> ps_sessionId = sessionId, ps_walletAddress = walletAddress,
                      ps_agentId = agentId, ps_resource = resource,
                      ps_amountRequired = amountRequired, ps_status = Pending,
                      ps_createdAt = now, ps_expiresAt = expiresAt, ps_paidAt = None,
                      ps_transactionSignature = None, ps_usedAt = None \<rparr>;
          ss = AList.update sessionId session (sessions st);
          ws = (if map_of (walletSessions st) walletAddress = None
                then AList.update walletAddress [] (walletSessions st)
                else walletSessions st);
          ws' = (case map_of ws walletAddress of
                   None \<Rightarrow> ws
                 | Some ids \<Rightarrow> AList.update walletAddress (set_add sessionId ids) ws)
      in (session, \<lparr> sessions = ss, walletSessions = ws' \<rparr>))"




definition markSessionPaid ::
  "string \<Rightarrow> string \<Rightarrow> int \<Rightarrow> session_store \<Rightarrow> bool \<times> session_store" where
  "markSessionPaid sessionId transactionSignature now st =
     (case map_of (sessions st) sessionId of
        None \<Rightarrow> (False, st)
      | Some session \<Rightarrow>
          if ps_status session \<noteq> Pending then (False, st)
          else if now > ps_expiresAt session
          then (False, st\<lparr> sessions :=
                  AList.update sessionId (session\<lparr> ps_status := Expired \<rparr>) (sessions st) \<rparr>)
          else (True, st\<lparr> sessions :=
                  AList.update sessionId
                    (session\<lparr> ps_status := Paid, ps_paidAt := Some now,
                              ps_transactionSignature := Some transactionSignature \<rparr>)
                    (sessions st) \<rparr>))"











text \<open>A store holding one pending session created at time 0, for concrete checks.\<close>

definition demo_store :: session_store where
  "demo_store = snd (createSession ''s1'' 0 ''wallet'' ''agent'' ''/api'' ''1000''
                      \<lparr> sessions = [], walletSessions = [] \<rparr>)"

definition demo_session :: PaymentSession where
  "demo_session = \<lparr> ps_sessionId = ''s1'', ps_walletAddress = ''wallet'',
      ps_agentId = ''agent'', ps_resource = ''/api'', ps_amountRequired = ''1000'',
      ps_status = Pending, ps_createdAt = 0, ps_expiresAt = 300000, ps_paidAt = None,
      ps_transactionSignature = None, ps_usedAt = None \<rparr>"

section \<open>Escrow ledger\<close>

subsection \<open>Address validation and identifiers\<close>

text \<open>
  \<^verbatim>\<open>validateSolanaAddress\<close> tests the regular expression
  \<^verbatim>\<open>/^[1-9A-HJ-NP-Za-km-z]{32,44}$/\<close>: the whole string, 32 to 44 characters, each in the
  class. Every character of the class is ASCII, so a string with any other character
  fails in JavaScript and here alike.
\<close>

definition base58_chars :: string where
  "base58_chars = ''123456789ABCDEFGHJKLMNPQRSTUVWXYZabcdefghijkmnopqrstuvwxyz''"

definition validateSolanaAddress :: "string \<Rightarrow> bool" where
  "validateSolanaAddress address \<longleftrightarrow>
     32 \<le> length address \<and> length address \<le> 44 \<and> list_all (\<lambda>c. c \<in> set base58_chars) address"

text \<open>The decimal digits of an integer, as \<^verbatim>\<open>Number.prototype.toString\<close> prints them.\<close>

definition digit_char :: "nat \<Rightarrow> char" where
  "digit_char n = ''0123456789'' ! n"

fun show_nat :: "nat \<Rightarrow> string" where
  "show_nat n = (if n < 10 then [digit_char n] else show_nat (n div 10) @ [digit_char (n mod 10)])"

declare show_nat.simps [simp del]

definition show_int :: "int \<Rightarrow> string" where
  "show_int i = (if i < 0 then CHR ''-'' # show_nat (nat (- i)) else show_nat (nat i))"

text \<open>
  \<^verbatim>\<open>generateEscrowId\<close>: \<open>secureToken\<close> stands for the 24 hexadecimal digits of
  \<^verbatim>\<open>randomBytes(12)\<close>.
\<close>

definition generateEscrowId :: "int \<Rightarrow> string \<Rightarrow> string" where
  "generateEscrowId now secureToken = ''x402_escrow_'' @ show_int now @ ''_'' @ secureToken"

subsection \<open>Records and state\<close>

definition ESCROW_EXPIRY_MS :: int where
  "ESCROW_EXPIRY_MS = 86400000"

definition MAX_ESCROW_AMOUNT :: real where
  "MAX_ESCROW_AMOUNT = 1000"

definition MIN_ESCROW_AMOUNT :: real where
  "MIN_ESCROW_AMOUNT = 0.001"

definition ESCROW_FEE_PERCENT :: real where
  "ESCROW_FEE_PERCENT = 0.5"

datatype EscrowStatus = Held | Released | Refunded | Disputed | EscrowExpired

datatype resolution = Release | Refund | Split

record EscrowAccount =
  ea_id :: string
  ea_depositor :: string
  ea_beneficiary :: string
  ea_amount :: real
  ea_fee :: real
  ea_status :: EscrowStatus
  ea_createdAt :: int
  ea_expiresAt :: int
  ea_releasedAt :: "int option"
  ea_releaseCondition :: string
  ea_metadata :: "(string \<times> string) list option"

record EscrowDispute =
  ed_escrowId :: string
  ed_initiatedBy :: string
  ed_reason :: string
  ed_evidence :: "string list"
  ed_createdAt :: int
  ed_resolvedAt :: "int option"
  ed_resolution :: "resolution option"

record EscrowMetrics =
  em_totalEscrows :: int
  em_activeEscrows :: int
  em_totalReleased :: int
  em_totalRefunded :: int
  em_totalDisputed :: int
  em_totalFeesCollected :: real
  em_averageHoldTime :: real

record escrow_state =
  escrowAccounts :: "(string \<times> EscrowAccount) list"
  escrowsByDepositor :: "(string \<times> string list) list"
  escrowsByBeneficiary :: "(string \<times> string list) list"
  activeDisputes :: "(string \<times> EscrowDispute) list"
  escrowMetrics :: EscrowMetrics

text \<open>The module's state when it is loaded.\<close>

definition escrow_init :: escrow_state where
  "escrow_init =
     \<lparr> escrowAccounts = [], escrowsByDepositor = [], escrowsByBeneficiary = [],
       activeDisputes = [],
       escrowMetrics = \<lparr> em_totalEscrows = 0, em_activeEscrows = 0, em_totalReleased = 0,
         em_totalRefunded = 0, em_totalDisputed = 0, em_totalFeesCollected = 0,
         em_averageHoldTime = 0 \<rparr> \<rparr>"

subsection \<open>Operations\<close>

definition calculateEscrowFee :: "real \<Rightarrow> real" where
  "calculateEscrowFee amount = amount * (ESCROW_FEE_PERCENT / 100)"

text \<open>\<^verbatim>\<open>index.get(k)!.add(id)\<close> after \<^verbatim>\<open>if (!index.has(k)) index.set(k, new Set())\<close>.\<close>

definition index_add :: "string \<Rightarrow> string \<Rightarrow> (string \<times> string list) list \<Rightarrow> (string \<times> string list) list" where
  "index_add k i idx =
     (let idx1 = (if map_of idx k = None then AList.update k [] idx else idx)
      in case map_of idx1 k of
           None \<Rightarrow> idx1
         | Some ids \<Rightarrow> AList.update k (set_add i ids) idx1)"

definition createEscrow ::
  "string \<Rightarrow> int \<Rightarrow> string \<Rightarrow> string \<Rightarrow> real \<Rightarrow> string \<Rightarrow> int option
     \<Rightarrow> (string \<times> string) list option \<Rightarrow> escrow_state \<Rightarrow> EscrowAccount option \<times> escrow_state" where
  "createEscrow secureToken now depositor beneficiary amount releaseCondition expiryMs metadata st =
     (if \<not> validateSolanaAddress depositor \<or> \<not> validateSolanaAddress beneficiary then (None, st)
      else if amount < MIN_ESCROW_AMOUNT \<or> amount > MAX_ESCROW_AMOUNT then (None, st)
      else if depositor = beneficiary then (None, st)
      else
        (let fee = calculateEscrowFee amount;
             escrow = \<lparr> ea_id = generateEscrowId now secureToken, ea_depositor = depositor,
                        ea_beneficiary = beneficiary, ea_amount = amount, ea_fee = fee,
                        ea_status = Held, ea_createdAt = now,
                        ea_expiresAt = now + (case expiryMs of None \<Rightarrow> ESCROW_EXPIRY_MS | Some e \<Rightarrow> e),
                        ea_releasedAt = None, ea_releaseCondition = releaseCondition,
                        ea_metadata = metadata \<rparr>;
             m = escrowMetrics st
         in (Some escrow,
             \<lparr> escrowAccounts = AList.update (ea_id escrow) escrow (escrowAccounts st),
               escrowsByDepositor = index_add depositor (ea_id escrow) (escrowsByDepositor st),
               escrowsByBeneficiary = index_add beneficiary (ea_id escrow) (escrowsByBeneficiary st),
               activeDisputes = activeDisputes st,
               escrowMetrics = m\<lparr> em_totalEscrows := em_totalEscrows m + 1,
                                   em_activeEscrows := em_activeEscrows m + 1 \<rparr> \<rparr>)))"

definition getEscrow :: "string \<Rightarrow> escrow_state \<Rightarrow> EscrowAccount option" where
  "getEscrow escrowId st = map_of (escrowAccounts st) escrowId"

text \<open>
  \<^verbatim>\<open>updateAverageHoldTime\<close> runs after the counters are incremented, so
  \<open>completedCount\<close> is at least 1 in every state reached from \<open>escrow_init\<close>. In
  \<^verbatim>\<open>escrow.releasedAt || Date.now()\<close> a \<^verbatim>\<open>releasedAt\<close> of 0 is falsy.
\<close>

definition updateAverageHoldTime :: "int \<Rightarrow> EscrowAccount \<Rightarrow> EscrowMetrics \<Rightarrow> EscrowMetrics" where
  "updateAverageHoldTime now escrow m =
     (let holdTime = (case ea_releasedAt escrow of
                        None \<Rightarrow> now
                      | Some t \<Rightarrow> if t = 0 then now else t) - ea_createdAt escrow;
          completedCount = em_totalReleased m + em_totalRefunded m;
          totalTime = em_averageHoldTime m * real_of_int (completedCount - 1)
      in m\<lparr> em_averageHoldTime := (totalTime + real_of_int holdTime) / real_of_int completedCount \<rparr>)"

definition releaseEscrow :: "string \<Rightarrow> string \<Rightarrow> int \<Rightarrow> escrow_state \<Rightarrow> bool \<times> escrow_state" where
  "releaseEscrow escrowId authorizedBy now st =
     (case map_of (escrowAccounts st) escrowId of
        None \<Rightarrow> (False, st)
      | Some escrow \<Rightarrow>
          if ea_status escrow \<noteq> Held then (False, st)
          else if authorizedBy \<noteq> ea_depositor escrow then (False, st)
          else
            (let escrow' = escrow\<lparr> ea_status := Released, ea_releasedAt := Some now \<rparr>;
                 m = escrowMetrics st;
                 m' = m\<lparr> em_activeEscrows := em_activeEscrows m - 1,
                         em_totalReleased := em_totalReleased m + 1,
                         em_totalFeesCollected := em_totalFeesCollected m + ea_fee escrow \<rparr>
             in (True, st\<lparr> escrowAccounts := AList.update escrowId escrow' (escrowAccounts st),
                           escrowMetrics := updateAverageHoldTime now escrow' m' \<rparr>)))"

definition refundEscrow :: "string \<Rightarrow> string \<Rightarrow> int \<Rightarrow> escrow_state \<Rightarrow> bool \<times> escrow_state" where
  "refundEscrow escrowId reason now st =
     (case map_of (escrowAccounts st) escrowId of
        None \<Rightarrow> (False, st)
      | Some escrow \<Rightarrow>
          if ea_status escrow \<noteq> Held \<and> ea_status escrow \<noteq> Disputed then (False, st)
          else
            (let escrow' = escrow\<lparr> ea_status := Refunded, ea_releasedAt := Some now \<rparr>;
                 m = escrowMetrics st;
                 m' = m\<lparr> em_activeEscrows := em_activeEscrows m - 1,
                         em_totalRefunded := em_totalRefunded m + 1 \<rparr>
             in (True, st\<lparr> escrowAccounts := AList.update escrowId escrow' (escrowAccounts st),
                           escrowMetrics := updateAverageHoldTime now escrow' m' \<rparr>)))"

definition initiateDispute ::
  "string \<Rightarrow> string \<Rightarrow> string \<Rightarrow> string list \<Rightarrow> int \<Rightarrow> escrow_state
     \<Rightarrow> EscrowDispute option \<times> escrow_state" where
  "initiateDispute escrowId initiatedBy reason evidence now st =
     (case map_of (escrowAccounts st) escrowId of
        None \<Rightarrow> (None, st)
      | Some escrow \<Rightarrow>
          if ea_status escrow \<noteq> Held then (None, st)
          else if initiatedBy \<noteq> ea_depositor escrow \<and> initiatedBy \<noteq> ea_beneficiary escrow
          then (None, st)
          else
            (case map_of (activeDisputes st) escrowId of
               Some d \<Rightarrow> (Some d, st)
             | None \<Rightarrow>
                 (let dispute = \<lparr> ed_escrowId = escrowId, ed_initiatedBy = initiatedBy,
                                   ed_reason = reason, ed_evidence = evidence, ed_createdAt = now,
                                   ed_resolvedAt = None, ed_resolution = None \<rparr>;
                      m = escrowMetrics st
                  in (Some dispute,
                      st\<lparr> escrowAccounts :=
                            AList.update escrowId (escrow\<lparr> ea_status := Disputed \<rparr>) (escrowAccounts st),
                          activeDisputes := AList.update escrowId dispute (activeDisputes st),
                          escrowMetrics := m\<lparr> em_totalDisputed := em_totalDisputed m + 1 \<rparr> \<rparr>))))"

text \<open>
  \<^verbatim>\<open>resolveDispute\<close> writes \<^verbatim>\<open>resolvedAt\<close> and \<^verbatim>\<open>resolution\<close> into the dispute record and
  then deletes the record from \<^verbatim>\<open>activeDisputes\<close>; both steps are kept. The three
  branches on \<open>resolution\<close> are those of the source, in its order.
\<close>

definition resolveDispute :: "string \<Rightarrow> resolution \<Rightarrow> int \<Rightarrow> escrow_state \<Rightarrow> bool \<times> escrow_state" where
  "resolveDispute escrowId res now st =
     (case (map_of (activeDisputes st) escrowId, map_of (escrowAccounts st) escrowId) of
        (Some dispute, Some escrow) \<Rightarrow>
          if ea_status escrow \<noteq> Disputed then (False, st)
          else
            (let dispute' = dispute\<lparr> ed_resolvedAt := Some now, ed_resolution := Some res \<rparr>;
                 disputes1 = AList.update escrowId dispute' (activeDisputes st);
                 m = escrowMetrics st;
                 (escrow', m') =
                    (if res = Release
                     then (escrow\<lparr> ea_status := Released, ea_releasedAt := Some now \<rparr>,
                           m\<lparr> em_totalReleased := em_totalReleased m + 1 \<rparr>)
                     else if res = Refund
                     then (escrow\<lparr> ea_status := Refunded, ea_releasedAt := Some now \<rparr>,
                           m\<lparr> em_totalRefunded := em_totalRefunded m + 1 \<rparr>)
                     else (escrow\<lparr> ea_status := Released, ea_releasedAt := Some now \<rparr>,
                           m\<lparr> em_totalReleased := em_totalReleased m + 1 \<rparr>))
             in (True,
                 st\<lparr> escrowAccounts := AList.update escrowId escrow' (escrowAccounts st),
                     activeDisputes := AList.delete escrowId disputes1,
                     escrowMetrics := m'\<lparr> em_activeEscrows := em_activeEscrows m' - 1 \<rparr> \<rparr>))
      | _ \<Rightarrow> (False, st))"

text \<open>
  \<^verbatim>\<open>checkExpiredEscrows\<close> walks a snapshot of the entries. An entry holds a reference to the
  stored object, so the loop body reads the fields the object has when its turn comes:
  the walk is over the keys, with a lookup at each.
\<close>

definition expire_entry ::
  "int \<Rightarrow> string \<Rightarrow> escrow_state \<times> string list \<Rightarrow> escrow_state \<times> string list" where
  "expire_entry now i acc =
     (case acc of (st, expired) \<Rightarrow>
      case map_of (escrowAccounts st) i of
        None \<Rightarrow> (st, expired)
      | Some escrow \<Rightarrow>
          if ea_status escrow = Held \<and> now > ea_expiresAt escrow
          then (let m = escrowMetrics st
                in (st\<lparr> escrowAccounts :=
                          AList.update i (escrow\<lparr> ea_status := EscrowExpired \<rparr>) (escrowAccounts st),
                        escrowMetrics := m\<lparr> em_activeEscrows := em_activeEscrows m - 1 \<rparr> \<rparr>,
                    expired @ [i]))
          else (st, expired))"

definition checkExpiredEscrows :: "int \<Rightarrow> escrow_state \<Rightarrow> string list \<times> escrow_state" where
  "checkExpiredEscrows now st =
     (case fold (expire_entry now) (map fst (escrowAccounts st)) (st, []) of
        (st', expired) \<Rightarrow> (expired, st'))"

definition extendEscrowExpiry :: "string \<Rightarrow> int \<Rightarrow> escrow_state \<Rightarrow> bool \<times> escrow_state" where
  "extendEscrowExpiry escrowId additionalMs st =
     (case map_of (escrowAccounts st) escrowId of
        None \<Rightarrow> (False, st)
      | Some escrow \<Rightarrow>
          if ea_status escrow \<noteq> Held then (False, st)
          else (True, st\<lparr> escrowAccounts :=
                  AList.update escrowId
                    (escrow\<lparr> ea_expiresAt := ea_expiresAt escrow + additionalMs \<rparr>)
                    (escrowAccounts st) \<rparr>))"

subsection \<open>Calls and runs\<close>

text \<open>
  The exported functions that write the ledger, with their arguments; the other exports
  (\<^verbatim>\<open>getEscrow\<close>, \<^verbatim>\<open>getDepositorEscrows\<close>, \<^verbatim>\<open>getBeneficiaryEscrows\<close>, \<^verbatim>\<open>getActiveEscrows\<close>,
  \<^verbatim>\<open>getEscrowMetrics\<close>, \<^verbatim>\<open>getDisputeStatus\<close>, \<^verbatim>\<open>calculateNetAmount\<close>) only read.
\<close>

datatype escrow_op =
    CreateEscrow string string string real string "int option" "(string \<times> string) list option"
  | ReleaseEscrow string string
  | RefundEscrow string string
  | InitiateDispute string string string "string list"
  | ResolveDispute string resolution
  | CheckExpiredEscrows
  | ExtendEscrowExpiry string int

datatype escrow_result =
    RAccount "EscrowAccount option"
  | RBool bool
  | RDispute "EscrowDispute option"
  | RIds "string list"

fun escrow_exec :: "int \<Rightarrow> escrow_op \<Rightarrow> escrow_state \<Rightarrow> escrow_result \<times> escrow_state" where
  "escrow_exec now (CreateEscrow tok d b a c e md) st =
     (case createEscrow tok now d b a c e md st of (r, st') \<Rightarrow> (RAccount r, st'))"
| "escrow_exec now (ReleaseEscrow i a) st =
     (case releaseEscrow i a now st of (r, st') \<Rightarrow> (RBool r, st'))"
| "escrow_exec now (RefundEscrow i rs) st =
     (case refundEscrow i rs now st of (r, st') \<Rightarrow> (RBool r, st'))"
| "escrow_exec now (InitiateDispute i who rs ev) st =
     (case initiateDispute i who rs ev now st of (r, st') \<Rightarrow> (RDispute r, st'))"
| "escrow_exec now (ResolveDispute i res) st =
     (case resolveDispute i res now st of (r, st') \<Rightarrow> (RBool r, st'))"
| "escrow_exec now CheckExpiredEscrows st =
     (case checkExpiredEscrows now st of (r, st') \<Rightarrow> (RIds r, st'))"
| "escrow_exec now (ExtendEscrowExpiry i ms) st =
     (case extendEscrowExpiry i ms st of (r, st') \<Rightarrow> (RBool r, st'))"

text \<open>
  The identifier that \<^verbatim>\<open>createEscrow\<close> generates is new: no stored escrow has it. The
  ledger never deletes an account, so an identifier new to the state is new for good.
\<close>

fun escrow_op_fresh :: "int \<Rightarrow> escrow_op \<Rightarrow> escrow_state \<Rightarrow> bool" where
  "escrow_op_fresh now (CreateEscrow tok d b a c e md) st =
     (map_of (escrowAccounts st) (generateEscrowId now tok) = None)"
| "escrow_op_fresh now _ st = True"

fun fresh_run :: "escrow_state \<Rightarrow> (int \<times> escrow_op) list \<Rightarrow> bool" where
  "fresh_run st [] = True"
| "fresh_run st ((now, op) # calls) =
     (escrow_op_fresh now op st \<and> fresh_run (snd (escrow_exec now op st)) calls)"

fun is_release_of :: "string \<Rightarrow> escrow_op \<Rightarrow> bool" where
  "is_release_of eid (ReleaseEscrow i a) = (i = eid)"
| "is_release_of eid _ = False"

text \<open>How many calls of \<^verbatim>\<open>releaseEscrow\<close> on \<open>eid\<close> return true in a run of calls.\<close>

fun release_successes :: "string \<Rightarrow> escrow_state \<Rightarrow> (int \<times> escrow_op) list \<Rightarrow> nat" where
  "release_successes eid st [] = 0"
| "release_successes eid st ((now, op) # calls) =
     (case escrow_exec now op st of
        (r, st') \<Rightarrow>
          (if is_release_of eid op \<and> r = RBool True then 1 else 0)
            + release_successes eid st' calls)"

subsection \<open>Auxiliary definitions\<close>

text \<open>What the expiry sweep does to one account at time \<open>now\<close>.\<close>

definition sweep :: "int \<Rightarrow> EscrowAccount \<Rightarrow> EscrowAccount" where
  "sweep now e = (if ea_status e = Held \<and> now > ea_expiresAt e
                  then e\<lparr> ea_status := EscrowExpired \<rparr> else e)"

text \<open>
  A concrete ledger for checks: one escrow of amount 10 created at time 1000 from the
  initial state (\<open>demo_held\<close>), then disputed by its depositor at time 2000
  (\<open>demo_disputed\<close>); and a run that creates it and releases it twice.
\<close>

definition demo_depositor :: string where
  "demo_depositor = ''AAAAAAAAAAAAAAAAAAAAAAAAAAAAAAAA''"

definition demo_beneficiary :: string where
  "demo_beneficiary = ''BBBBBBBBBBBBBBBBBBBBBBBBBBBBBBBB''"

definition demo_token :: string where
  "demo_token = ''0123456789abcdef01234567''"

definition demo_id :: string where
  "demo_id = ''x402_escrow_1000_0123456789abcdef01234567''"

definition demo_held :: escrow_state where
  "demo_held = snd (createEscrow demo_token 1000 demo_depositor demo_beneficiary 10 ''cond''
                      None None escrow_init)"

definition demo_disputed :: escrow_state where
  "demo_disputed = snd (initiateDispute demo_id demo_depositor ''late'' [] 2000 demo_held)"

definition demo_account :: EscrowAccount where
  "demo_account = \<lparr> ea_id = demo_id, ea_depositor = demo_depositor,
      ea_beneficiary = demo_beneficiary, ea_amount = 10, ea_fee = 0.05, ea_status = Held,
      ea_createdAt = 1000, ea_expiresAt = 86401000, ea_releasedAt = None,
      ea_releaseCondition = ''cond'', ea_metadata = None \<rparr>"

definition demo_calls :: "(int \<times> escrow_op) list" where
  "demo_calls =
     [(1000, CreateEscrow demo_token demo_depositor demo_beneficiary 10 ''cond'' None None),
      (2000, ReleaseEscrow demo_id demo_depositor),
      (3000, ReleaseEscrow demo_id demo_depositor)]"

section \<open>Rate limiter\<close>

definition WINDOW_SIZE_MS :: int where
  "WINDOW_SIZE_MS = 60000"

definition MAX_REQUESTS_PER_WINDOW :: nat where
  "MAX_REQUESTS_PER_WINDOW = 100"

definition MAX_PAYMENTS_PER_WINDOW :: nat where
  "MAX_PAYMENTS_PER_WINDOW = 20"

definition MAX_EXECUTIONS_PER_WINDOW :: nat where
  "MAX_EXECUTIONS_PER_WINDOW = 50"

definition COOLDOWN_PERIOD_MS :: int where
  "COOLDOWN_PERIOD_MS = 300000"

definition MAX_HISTORY_SIZE :: nat where
  "MAX_HISTORY_SIZE = 10000"

datatype RateLimitType = Request | Payment | Execution

text \<open>
  The counters \<^verbatim>\<open>count\<close> and \<^verbatim>\<open>violations\<close> start at 0 and are only incremented or set
  to 0, so they are naturals.
\<close>

record RateLimitBucket =
  rb_walletAddress :: string
  rb_type :: RateLimitType
  rb_windowStart :: int
  rb_count :: nat
  rb_blocked :: bool
  rb_blockedUntil :: "int option"
  rb_violations :: nat

record UsageRecord =
  ur_walletAddress :: string
  ur_agentId :: string
  ur_timestamp :: int
  ur_type :: RateLimitType
  ur_amount :: "real option"
  ur_success :: bool

record WalletUsageStats =
  wu_walletAddress :: string
  wu_totalRequests :: nat
  wu_totalPayments :: nat
  wu_totalExecutions :: nat
  wu_totalSpent :: real
  wu_lastActivity :: int
  wu_isBlocked :: bool
  wu_violations :: nat

record GlobalUsageMetrics =
  gm_totalRequests :: nat
  gm_totalPayments :: nat
  gm_totalExecutions :: nat
  gm_blockedWallets :: nat
  gm_totalViolations :: nat
  gm_requestsPerMinute :: nat

record ratelimit_state =
  rateLimitBuckets :: "(string \<times> RateLimitBucket) list"
  usageHistory :: "UsageRecord list"
  walletStats :: "(string \<times> WalletUsageStats) list"
  globalMetrics :: GlobalUsageMetrics

definition ratelimit_init :: ratelimit_state where
  "ratelimit_init =
     \<lparr> rateLimitBuckets = [], usageHistory = [], walletStats = [],
       globalMetrics = \<lparr> gm_totalRequests = 0, gm_totalPayments = 0, gm_totalExecutions = 0,
         gm_blockedWallets = 0, gm_totalViolations = 0, gm_requestsPerMinute = 0 \<rparr> \<rparr>"

fun type_name :: "RateLimitType \<Rightarrow> string" where
  "type_name Request = ''request''"
| "type_name Payment = ''payment''"
| "type_name Execution = ''execution''"

definition getBucketKey :: "string \<Rightarrow> RateLimitType \<Rightarrow> string" where
  "getBucketKey walletAddress type = walletAddress @ '':'' @ type_name type"

fun getMaxForType :: "RateLimitType \<Rightarrow> nat" where
  "getMaxForType Request = MAX_REQUESTS_PER_WINDOW"
| "getMaxForType Payment = MAX_PAYMENTS_PER_WINDOW"
| "getMaxForType Execution = MAX_EXECUTIONS_PER_WINDOW"

record limit_result =
  allowed :: bool
  remaining :: int
  resetIn :: int

text \<open>
  The object literal both functions build when the bucket is missing or its window is
  over: \<^verbatim>\<open>violations: bucket?.violations || 0\<close> keeps the old count of violations.
\<close>

definition new_bucket :: "string \<Rightarrow> RateLimitType \<Rightarrow> int \<Rightarrow> RateLimitBucket option \<Rightarrow> RateLimitBucket" where
  "new_bucket walletAddress type now old =
     \<lparr> rb_walletAddress = walletAddress, rb_type = type, rb_windowStart = now, rb_count = 0,
       rb_blocked = False, rb_blockedUntil = None,
       rb_violations = (case old of None \<Rightarrow> 0 | Some b \<Rightarrow> rb_violations b) \<rparr>"

text \<open>
  \<^verbatim>\<open>bucket?.blocked && bucket.blockedUntil\<close>: the bucket is blocked and \<^verbatim>\<open>blockedUntil\<close> is
  truthy, that is, defined and not 0. \<open>active_block\<close> returns that \<^verbatim>\<open>blockedUntil\<close>.
\<close>

definition active_block :: "RateLimitBucket \<Rightarrow> int option" where
  "active_block bucket =
     (if rb_blocked bucket
      then (case rb_blockedUntil bucket of
              None \<Rightarrow> None
            | Some u \<Rightarrow> if u \<noteq> 0 then Some u else None)
      else None)"

text \<open>
  The second half of \<^verbatim>\<open>checkRateLimit\<close>, from the window test on. \<open>bucket\<close> is the
  bucket found, after the first half has lifted a block that is over.
\<close>

definition check_window ::
  "string \<Rightarrow> RateLimitType \<Rightarrow> int \<Rightarrow> RateLimitBucket option \<Rightarrow> ratelimit_state
     \<Rightarrow> limit_result \<times> ratelimit_state" where
  "check_window walletAddress type now bucket st =
     (let bucket' =
            (case bucket of
               None \<Rightarrow> new_bucket walletAddress type now None
             | Some b \<Rightarrow>
                 if now - rb_windowStart b \<ge> WINDOW_SIZE_MS
                 then new_bucket walletAddress type now (Some b)
                 else b);
          mx = getMaxForType type
      in (\<lparr> allowed = rb_count bucket' < mx,
             remaining = max 0 (int mx - int (rb_count bucket')),
             resetIn = WINDOW_SIZE_MS - (now - rb_windowStart bucket') \<rparr>,
          st\<lparr> rateLimitBuckets :=
                AList.update (getBucketKey walletAddress type) bucket' (rateLimitBuckets st) \<rparr>))"

definition checkRateLimit ::
  "string \<Rightarrow> RateLimitType \<Rightarrow> int \<Rightarrow> ratelimit_state \<Rightarrow> limit_result \<times> ratelimit_state" where
  "checkRateLimit walletAddress type now st =
     (case map_of (rateLimitBuckets st) (getBucketKey walletAddress type) of
        None \<Rightarrow> check_window walletAddress type now None st
      | Some bucket \<Rightarrow>
          (case active_block bucket of
             Some blockedUntil \<Rightarrow>
               if now < blockedUntil
               then (\<lparr> allowed = False, remaining = 0, resetIn = blockedUntil - now \<rparr>, st)
               else check_window walletAddress type now
                      (Some (bucket\<lparr> rb_blocked := False, rb_blockedUntil := None \<rparr>)) st
           | None \<Rightarrow> check_window walletAddress type now (Some bucket) st))"

definition updateWalletStats ::
  "string \<Rightarrow> RateLimitType \<Rightarrow> real option \<Rightarrow> int
     \<Rightarrow> (string \<times> WalletUsageStats) list \<Rightarrow> (string \<times> WalletUsageStats) list" where
  "updateWalletStats walletAddress type amount now ws =
     (let stats0 = (case map_of ws walletAddress of
                      Some s \<Rightarrow> s
                    | None \<Rightarrow> \<lparr> wu_walletAddress = walletAddress, wu_totalRequests = 0,
                                 wu_totalPayments = 0, wu_totalExecutions = 0, wu_totalSpent = 0,
                                 wu_lastActivity = now, wu_isBlocked = False, wu_violations = 0 \<rparr>);
          stats1 = stats0\<lparr> wu_lastActivity := now \<rparr>;
          stats2 = (case type of
                      Request \<Rightarrow> stats1\<lparr> wu_totalRequests := wu_totalRequests stats1 + 1 \<rparr>
                    | Payment \<Rightarrow>
                        (let s = stats1\<lparr> wu_totalPayments := wu_totalPayments stats1 + 1 \<rparr>
                         in case amount of
                              None \<Rightarrow> s
                            | Some a \<Rightarrow> if a = 0 then s
                                        else s\<lparr> wu_totalSpent := wu_totalSpent s + a \<rparr>)
                    | Execution \<Rightarrow> stats1\<lparr> wu_totalExecutions := wu_totalExecutions stats1 + 1 \<rparr>)
      in AList.update walletAddress stats2 ws)"

definition updateGlobalMetrics ::
  "RateLimitType \<Rightarrow> int \<Rightarrow> UsageRecord list \<Rightarrow> GlobalUsageMetrics \<Rightarrow> GlobalUsageMetrics" where
  "updateGlobalMetrics type now history g =
     (let g1 = (case type of
                  Request \<Rightarrow> g\<lparr> gm_totalRequests := gm_totalRequests g + 1 \<rparr>
                | Payment \<Rightarrow> g\<lparr> gm_totalPayments := gm_totalPayments g + 1 \<rparr>
                | Execution \<Rightarrow> g\<lparr> gm_totalExecutions := gm_totalExecutions g + 1 \<rparr>);
          oneMinuteAgo = now - 60000;
          recentRequests =
            length (filter (\<lambda>r. ur_timestamp r > oneMinuteAgo \<and> ur_type r = Request) history)
      in g1\<lparr> gm_requestsPerMinute := recentRequests \<rparr>)"

definition recordUsage ::
  "string \<Rightarrow> string \<Rightarrow> RateLimitType \<Rightarrow> real option \<Rightarrow> bool \<Rightarrow> int \<Rightarrow> ratelimit_state
     \<Rightarrow> bool \<times> ratelimit_state" where
  "recordUsage walletAddress agentId type amount success now st =
     (let key = getBucketKey walletAddress type;
          bucket =
            (case map_of (rateLimitBuckets st) key of
               None \<Rightarrow> new_bucket walletAddress type now None
             | Some b \<Rightarrow>
                 if now - rb_windowStart b \<ge> WINDOW_SIZE_MS
                 then new_bucket walletAddress type now (Some b)
                 else b);
          mx = getMaxForType type;
          g = globalMetrics st
      in if rb_count bucket \<ge> mx
         then
           (let bucket1 = bucket\<lparr> rb_violations := rb_violations bucket + 1 \<rparr>;
                g1 = g\<lparr> gm_totalViolations := gm_totalViolations g + 1 \<rparr>;
                (bucket2, g2) =
                   (if rb_violations bucket1 \<ge> 3
                    then (bucket1\<lparr> rb_blocked := True,
                                   rb_blockedUntil := Some (now + COOLDOWN_PERIOD_MS) \<rparr>,
                          g1\<lparr> gm_blockedWallets := gm_blockedWallets g1 + 1 \<rparr>)
                    else (bucket1, g1))
            in (False, st\<lparr> rateLimitBuckets := AList.update key bucket2 (rateLimitBuckets st),
                           globalMetrics := g2 \<rparr>))
         else
           (let bucket1 = bucket\<lparr> rb_count := rb_count bucket + 1 \<rparr>;
                record = \<lparr> ur_walletAddress = walletAddress, ur_agentId = agentId,
                           ur_timestamp = now, ur_type = type, ur_amount = amount,
                           ur_success = success \<rparr>;
                history1 = usageHistory st @ [record];
                history2 = (if length history1 > MAX_HISTORY_SIZE then tl history1 else history1)
            in (True, \<lparr> rateLimitBuckets = AList.update key bucket1 (rateLimitBuckets st),
                         usageHistory = history2,
                         walletStats = updateWalletStats walletAddress type amount now (walletStats st),
                         globalMetrics = updateGlobalMetrics type now history2 g \<rparr>)))"

definition isWalletBlocked :: "string \<Rightarrow> ratelimit_state \<Rightarrow> bool" where
  "isWalletBlocked walletAddress st \<longleftrightarrow>
     list_ex (\<lambda>type. case map_of (rateLimitBuckets st) (getBucketKey walletAddress type) of
                        None \<Rightarrow> False
                      | Some b \<Rightarrow> rb_blocked b)
             [Request, Payment, Execution]"

definition unblock_type ::
  "string \<Rightarrow> RateLimitType \<Rightarrow> (string \<times> RateLimitBucket) list \<times> bool
     \<Rightarrow> (string \<times> RateLimitBucket) list \<times> bool" where
  "unblock_type walletAddress type acc =
     (case acc of (buckets, unblocked) \<Rightarrow>
        case map_of buckets (getBucketKey walletAddress type) of
          None \<Rightarrow> (buckets, unblocked)
        | Some b \<Rightarrow>
            if rb_blocked b
            then (AList.update (getBucketKey walletAddress type)
                    (b\<lparr> rb_blocked := False, rb_blockedUntil := None, rb_violations := 0 \<rparr>) buckets,
                  True)
            else (buckets, unblocked))"

text \<open>
  \<^verbatim>\<open>Math.max(0, globalMetrics.blockedWallets - 1)\<close> is the subtraction of naturals.
\<close>

definition unblockWallet :: "string \<Rightarrow> ratelimit_state \<Rightarrow> bool \<times> ratelimit_state" where
  "unblockWallet walletAddress st =
     (case fold (unblock_type walletAddress) [Request, Payment, Execution]
             (rateLimitBuckets st, False) of
        (buckets, unblocked) \<Rightarrow>
          if unblocked
          then (True,
                st\<lparr> rateLimitBuckets := buckets,
                    globalMetrics := (globalMetrics st)
                      \<lparr> gm_blockedWallets := gm_blockedWallets (globalMetrics st) - 1 \<rparr>,
                    walletStats :=
                      (case map_of (walletStats st) walletAddress of
                         None \<Rightarrow> walletStats st
                       | Some s \<Rightarrow> AList.update walletAddress
                                    (s\<lparr> wu_isBlocked := False, wu_violations := 0 \<rparr>)
                                    (walletStats st)) \<rparr>)
          else (False, st\<lparr> rateLimitBuckets := buckets \<rparr>))"

text \<open>
  \<^verbatim>\<open>cleanupOldData\<close> walks a snapshot of the entries and deletes the buckets whose window
  started before the cutoff and that are not blocked.
\<close>

definition cleanup_bucket ::
  "int \<Rightarrow> string \<times> RateLimitBucket \<Rightarrow> (string \<times> RateLimitBucket) list \<times> nat
     \<Rightarrow> (string \<times> RateLimitBucket) list \<times> nat" where
  "cleanup_bucket cutoff entry acc =
     (case entry of (key, bucket) \<Rightarrow>
      case acc of (buckets, cleaned) \<Rightarrow>
        if rb_windowStart bucket < cutoff \<and> \<not> rb_blocked bucket
        then (AList.delete key buckets, cleaned + 1)
        else (buckets, cleaned))"

definition cleanupOldData :: "int \<Rightarrow> int \<Rightarrow> ratelimit_state \<Rightarrow> nat \<times> ratelimit_state" where
  "cleanupOldData maxAgeMs now st =
     (case fold (cleanup_bucket (now - maxAgeMs)) (rateLimitBuckets st) (rateLimitBuckets st, 0) of
        (buckets, cleaned) \<Rightarrow> (cleaned, st\<lparr> rateLimitBuckets := buckets \<rparr>))"

subsection \<open>Calls and runs\<close>

datatype ratelimit_op =
    RecordUsage string string RateLimitType "real option" bool
  | CheckRateLimit string RateLimitType
  | UnblockWallet string
  | CleanupOldData int

fun ratelimit_step :: "int \<times> ratelimit_op \<Rightarrow> ratelimit_state \<Rightarrow> ratelimit_state" where
  "ratelimit_step (now, RecordUsage w a t am su) st = snd (recordUsage w a t am su now st)"
| "ratelimit_step (now, CheckRateLimit w t) st = snd (checkRateLimit w t now st)"
| "ratelimit_step (now, UnblockWallet w) st = snd (unblockWallet w st)"
| "ratelimit_step (now, CleanupOldData maxAgeMs) st = snd (cleanupOldData maxAgeMs now st)"

text \<open>The state after a list of calls, each with the clock value it reads.\<close>

definition ratelimit_run :: "(int \<times> ratelimit_op) list \<Rightarrow> ratelimit_state \<Rightarrow> ratelimit_state" where
  "ratelimit_run calls st = fold ratelimit_step calls st"

subsection \<open>Auxiliary definitions\<close>

text \<open>The invariant of the bucket map: every bucket's count is at most its type's ceiling.\<close>

definition within_ceiling :: "(string \<times> RateLimitBucket) list \<Rightarrow> bool" where
  "within_ceiling bs \<longleftrightarrow>
     (\<forall>w t b. map_of bs (getBucketKey w t) = Some b \<longrightarrow> rb_count b \<le> getMaxForType t)"

text \<open>A step that creates no bucket and changes no count.\<close>

definition counts_kept ::
  "(string \<times> RateLimitBucket) list \<Rightarrow> (string \<times> RateLimitBucket) list \<Rightarrow> bool" where
  "counts_kept bs bs' \<longleftrightarrow>
     (\<forall>k b'. map_of bs' k = Some b' \<longrightarrow> (\<exists>b. map_of bs k = Some b \<and> rb_count b' = rb_count b))"

text \<open>The bucket that \<^verbatim>\<open>recordUsage\<close> and \<^verbatim>\<open>checkRateLimit\<close> work on after the window test.\<close>

definition current_bucket ::
  "string \<Rightarrow> RateLimitType \<Rightarrow> int \<Rightarrow> RateLimitBucket option \<Rightarrow> RateLimitBucket" where
  "current_bucket w t now found =
     (case found of
        None \<Rightarrow> new_bucket w t now None
      | Some b \<Rightarrow> if now - rb_windowStart b \<ge> WINDOW_SIZE_MS then new_bucket w t now (Some b) else b)"

text \<open>
  A concrete limiter for checks: twenty accepted payment calls of one wallet at time 1000
  (\<open>demo_full\<close>, the bucket at its ceiling), then three more calls at times 2000, 3000 and
  4000 (\<open>demo_v1\<close>, \<open>demo_v2\<close>, \<open>demo_v3\<close>).
\<close>

definition demo_wallet :: string where
  "demo_wallet = ''CCCCCCCCCCCCCCCCCCCCCCCCCCCCCCCC''"

definition demo_full :: ratelimit_state where
  "demo_full = ratelimit_run (replicate 20 (1000, RecordUsage demo_wallet ''agent'' Payment None True))
                 ratelimit_init"

definition demo_bucket :: RateLimitBucket where
  "demo_bucket = \<lparr> rb_walletAddress = demo_wallet, rb_type = Payment, rb_windowStart = 1000,
      rb_count = 20, rb_blocked = False, rb_blockedUntil = None, rb_violations = 0 \<rparr>"




section \<open>Dynamic pricing\<close>

definition BASE_PRICE_LAMPORTS :: real where
  "BASE_PRICE_LAMPORTS = 100000"

definition MIN_PRICE_MULTIPLIER :: real where
  "MIN_PRICE_MULTIPLIER = 0.5"

definition MAX_PRICE_MULTIPLIER :: real where
  "MAX_PRICE_MULTIPLIER = 3.0"

definition PRICE_UPDATE_INTERVAL_MS :: int where
  "PRICE_UPDATE_INTERVAL_MS = 60000"

definition DEMAND_WINDOW_MS :: int where
  "DEMAND_WINDOW_MS = 300000"

datatype PricingTier = Free | Basic | Standard | Premium | Enterprise

datatype PricingModel = Per_request | Per_token | Per_minute | Flat_rate

datatype DiscountType = Volume | Loyalty | Promotional | Wallet_specific

record AgentPricing =
  ap_agentId :: string
  ap_basePrice :: real
  ap_model :: PricingModel
  ap_tier :: PricingTier
  ap_dynamicPricing :: bool
  ap_currentMultiplier :: real
  ap_lastUpdated :: int
  ap_customRates :: "(string \<times> real) list option"

record DemandMetrics =
  dm_agentId :: string
  dm_requestCount :: nat
  dm_windowStart :: int
  dm_peakRequests :: nat
  dm_averageRequests :: real

record PricingHistory =
  ph_agentId :: string
  ph_timestamp :: int
  ph_price :: real
  ph_multiplier :: real
  ph_reason :: string

record DiscountRule =
  dr_id :: string
  dr_name :: string
  dr_type :: DiscountType
  dr_discountPercent :: real
  dr_minVolume :: "real option"
  dr_walletAddresses :: "string list option"
  dr_validUntil :: "int option"
  dr_active :: bool

record pricing_state =
  agentPricing :: "(string \<times> AgentPricing) list"
  demandMetrics :: "(string \<times> DemandMetrics) list"
  pricingHistory :: "(string \<times> PricingHistory list) list"
  discountRules :: "(string \<times> DiscountRule) list"
  walletVolume :: "(string \<times> real) list"

definition pricing_init :: pricing_state where
  "pricing_init =
     \<lparr> agentPricing = [], demandMetrics = [], pricingHistory = [], discountRules = [],
       walletVolume = [] \<rparr>"

fun tierMultipliers :: "PricingTier \<Rightarrow> real" where
  "tierMultipliers Free = 0"
| "tierMultipliers Basic = 1"
| "tierMultipliers Standard = 1.5"
| "tierMultipliers Premium = 2.5"
| "tierMultipliers Enterprise = 4"

fun modelDefaults :: "PricingModel \<Rightarrow> real" where
  "modelDefaults Per_request = BASE_PRICE_LAMPORTS"
| "modelDefaults Per_token = real_of_int \<lfloor>BASE_PRICE_LAMPORTS / 1000\<rfloor>"
| "modelDefaults Per_minute = BASE_PRICE_LAMPORTS * 10"
| "modelDefaults Flat_rate = BASE_PRICE_LAMPORTS * 100"

text \<open>The \<^verbatim>\<open>options\<close> argument of \<^verbatim>\<open>registerAgentPricing\<close>; every field is optional.\<close>

record pricing_options =
  po_basePrice :: "real option"
  po_model :: "PricingModel option"
  po_tier :: "PricingTier option"
  po_dynamicPricing :: "bool option"
  po_customRates :: "(string \<times> real) list option"

text \<open>
  In \<^verbatim>\<open>options.basePrice || modelDefaults[model]\<close> a base price of 0 is falsy; in
  \<^verbatim>\<open>options.dynamicPricing !== false\<close> an absent field counts as true.
\<close>

definition registerAgentPricing ::
  "string \<Rightarrow> pricing_options \<Rightarrow> int \<Rightarrow> pricing_state \<Rightarrow> AgentPricing \<times> pricing_state" where
  "registerAgentPricing agentId options now st =
     (let model = (case po_model options of None \<Rightarrow> Per_request | Some m \<Rightarrow> m);
          pricing =
            \<lparr> ap_agentId = agentId,
              ap_basePrice = (case po_basePrice options of
                                None \<Rightarrow> modelDefaults model
                              | Some p \<Rightarrow> if p = 0 then modelDefaults model else p),
              ap_model = model,
              ap_tier = (case po_tier options of None \<Rightarrow> Standard | Some t \<Rightarrow> t),
              ap_dynamicPricing = (case po_dynamicPricing options of None \<Rightarrow> True | Some d \<Rightarrow> d),
              ap_currentMultiplier = 1.0,
              ap_lastUpdated = now,
              ap_customRates = po_customRates options \<rparr>
      in (pricing,
          st\<lparr> agentPricing := AList.update agentId pricing (agentPricing st),
              demandMetrics := AList.update agentId
                  \<lparr> dm_agentId = agentId, dm_requestCount = 0, dm_windowStart = now,
                    dm_peakRequests = 0, dm_averageRequests = 0 \<rparr> (demandMetrics st),
              pricingHistory := AList.update agentId [] (pricingHistory st) \<rparr>))"

definition getAgentPricing :: "string \<Rightarrow> pricing_state \<Rightarrow> AgentPricing option" where
  "getAgentPricing agentId st = map_of (agentPricing st) agentId"

text \<open>
  One turn of the loop of \<^verbatim>\<open>calculateWalletDiscount\<close> over the rules: \<open>maxDiscount\<close> is
  the accumulator. In \<^verbatim>\<open>rule.validUntil && now > rule.validUntil\<close> a \<^verbatim>\<open>validUntil\<close> of 0 is
  falsy.
\<close>

definition discount_step :: "string \<Rightarrow> real \<Rightarrow> real \<Rightarrow> int \<Rightarrow> DiscountRule \<Rightarrow> real \<Rightarrow> real" where
  "discount_step walletAddress baseAmount volume now rule maxDiscount =
     (if \<not> dr_active rule then maxDiscount
      else if (case dr_validUntil rule of None \<Rightarrow> False | Some u \<Rightarrow> u \<noteq> 0 \<and> now > u)
      then maxDiscount
      else
        (let applies =
               (case dr_type rule of
                  Volume \<Rightarrow> (case dr_minVolume rule of None \<Rightarrow> False | Some v \<Rightarrow> volume \<ge> v)
                | Wallet_specific \<Rightarrow>
                    (case dr_walletAddresses rule of
                       None \<Rightarrow> False
                     | Some ws \<Rightarrow> walletAddress \<in> set ws)
                | Loyalty \<Rightarrow> volume > 0
                | Promotional \<Rightarrow> True)
         in if applies
            then max maxDiscount (baseAmount * (dr_discountPercent rule / 100))
            else maxDiscount))"

definition calculateWalletDiscount :: "string \<Rightarrow> real \<Rightarrow> int \<Rightarrow> pricing_state \<Rightarrow> real" where
  "calculateWalletDiscount walletAddress baseAmount now st =
     (let volume = (case map_of (walletVolume st) walletAddress of None \<Rightarrow> 0 | Some v \<Rightarrow> v)
      in fold (discount_step walletAddress baseAmount volume now) (map snd (discountRules st)) 0)"

text \<open>\<^verbatim>\<open>Math.round\<close> rounds to the nearest integer, a half towards plus infinity.\<close>

definition Math_round :: "real \<Rightarrow> real" where
  "Math_round x = real_of_int \<lfloor>x + 1 / 2\<rfloor>"

record price_result =
  price :: real
  breakdown :: "(string \<times> real) list"

text \<open>
  \<^verbatim>\<open>calculatePrice\<close>: \<open>units\<close> is \<open>None\<close> when the caller leaves the parameter out
  (default 1); a \<open>walletAddress\<close> that is absent or the empty string is falsy. The
  breakdown object is the list of its properties in the order they are written.
\<close>

definition calculatePrice ::
  "string \<Rightarrow> real option \<Rightarrow> string option \<Rightarrow> int \<Rightarrow> pricing_state \<Rightarrow> price_result" where
  "calculatePrice agentId units walletAddress now st =
     (case map_of (agentPricing st) agentId of
        None \<Rightarrow> \<lparr> price = 0, breakdown = [(''error'', 1)] \<rparr>
      | Some pricing \<Rightarrow>
          (let n = (case units of None \<Rightarrow> 1 | Some u \<Rightarrow> u);
               tierMultiplier = tierMultipliers (ap_tier pricing)
           in if tierMultiplier = 0
              then \<lparr> price = 0, breakdown = [(''tier'', 0), (''free'', 1)] \<rparr>
              else
                (let baseAmount0 = ap_basePrice pricing * n * tierMultiplier;
                     breakdown0 = [(''base'', ap_basePrice pricing * n),
                                   (''tierMultiplier'', tierMultiplier)];
                     (baseAmount1, breakdown1) =
                        (if ap_dynamicPricing pricing
                         then (baseAmount0 * ap_currentMultiplier pricing,
                               breakdown0 @ [(''demandMultiplier'', ap_currentMultiplier pricing)])
                         else (baseAmount0, breakdown0));
                     (baseAmount2, breakdown2) =
                        (case walletAddress of
                           None \<Rightarrow> (baseAmount1, breakdown1)
                         | Some w \<Rightarrow>
                             if w = [] then (baseAmount1, breakdown1)
                             else
                               (let discount = calculateWalletDiscount w baseAmount1 now st
                                in if discount > 0
                                   then (baseAmount1 - discount,
                                         breakdown1 @ [(''discount'', - discount)])
                                   else (baseAmount1, breakdown1)))
                 in \<lparr> price = max 0 (Math_round baseAmount2), breakdown = breakdown2 \<rparr>)))"

text \<open>
  \<^verbatim>\<open>updateDynamicPricing\<close>. When the agent has no history array, \<^verbatim>\<open>|| []\<close> makes one that
  is pushed to and dropped, so the stored histories stay as they are.
\<close>

definition updateDynamicPricing :: "string \<Rightarrow> int \<Rightarrow> pricing_state \<Rightarrow> pricing_state" where
  "updateDynamicPricing agentId now st =
     (case (map_of (agentPricing st) agentId, map_of (demandMetrics st) agentId) of
        (Some pricing, Some metrics) \<Rightarrow>
          if \<not> ap_dynamicPricing pricing then st
          else if now - ap_lastUpdated pricing < PRICE_UPDATE_INTERVAL_MS then st
          else
            (let demandRatio = (if dm_averageRequests metrics > 0
                                then real (dm_requestCount metrics) / dm_averageRequests metrics
                                else 1);
                 newMultiplier =
                   (if demandRatio > 1.5
                    then min MAX_PRICE_MULTIPLIER (ap_currentMultiplier pricing * 1.1)
                    else if demandRatio < 0.5
                    then max MIN_PRICE_MULTIPLIER (ap_currentMultiplier pricing * 0.95)
                    else ap_currentMultiplier pricing)
             in if newMultiplier \<noteq> ap_currentMultiplier pricing
                then
                  (let entry = \<lparr> ph_agentId = agentId, ph_timestamp = now,
                                  ph_price = ap_basePrice pricing * newMultiplier,
                                  ph_multiplier = newMultiplier,
                                  ph_reason = (if demandRatio > 1.5 then ''high_demand''
                                               else ''low_demand'') \<rparr>;
                       histories =
                         (case map_of (pricingHistory st) agentId of
                            None \<Rightarrow> pricingHistory st
                          | Some history \<Rightarrow>
                              (let history1 = history @ [entry];
                                   history2 = (if length history1 > 100 then tl history1
                                               else history1)
                               in AList.update agentId history2 (pricingHistory st)))
                   in st\<lparr> agentPricing :=
                             AList.update agentId
                               (pricing\<lparr> ap_currentMultiplier := newMultiplier,
                                          ap_lastUpdated := now \<rparr>) (agentPricing st),
                           pricingHistory := histories \<rparr>)
                else st)
      | _ \<Rightarrow> st)"

definition recordRequest :: "string \<Rightarrow> string \<Rightarrow> real \<Rightarrow> int \<Rightarrow> pricing_state \<Rightarrow> pricing_state" where
  "recordRequest agentId walletAddress amount now st =
     (case map_of (demandMetrics st) agentId of
        None \<Rightarrow> st
      | Some metrics \<Rightarrow>
          (let metrics1 =
                 (if now - dm_windowStart metrics > DEMAND_WINDOW_MS
                  then metrics\<lparr> dm_averageRequests :=
                                   (dm_averageRequests metrics + real (dm_requestCount metrics)) / 2,
                                 dm_requestCount := 0, dm_windowStart := now \<rparr>
                  else metrics);
               metrics2 = metrics1\<lparr> dm_requestCount := dm_requestCount metrics1 + 1 \<rparr>;
               metrics3 = metrics2\<lparr> dm_peakRequests :=
                                       max (dm_peakRequests metrics2) (dm_requestCount metrics2) \<rparr>;
               currentVolume = (case map_of (walletVolume st) walletAddress of
                                  None \<Rightarrow> 0 | Some v \<Rightarrow> v)
           in updateDynamicPricing agentId now
                (st\<lparr> demandMetrics := AList.update agentId metrics3 (demandMetrics st),
                     walletVolume := AList.update walletAddress (currentVolume + amount)
                                       (walletVolume st) \<rparr>)))"

text \<open>The \<^verbatim>\<open>updates\<close> argument of \<^verbatim>\<open>updateAgentPricing\<close>: a field is written when defined.\<close>

record pricing_updates =
  pu_basePrice :: "real option"
  pu_model :: "PricingModel option"
  pu_tier :: "PricingTier option"
  pu_dynamicPricing :: "bool option"
  pu_customRates :: "(string \<times> real) list option"

definition updateAgentPricing ::
  "string \<Rightarrow> pricing_updates \<Rightarrow> int \<Rightarrow> pricing_state \<Rightarrow> bool \<times> pricing_state" where
  "updateAgentPricing agentId updates now st =
     (case map_of (agentPricing st) agentId of
        None \<Rightarrow> (False, st)
      | Some pricing \<Rightarrow>
          (let p1 = (case pu_basePrice updates of None \<Rightarrow> pricing
                     | Some v \<Rightarrow> pricing\<lparr> ap_basePrice := v \<rparr>);
               p2 = (case pu_model updates of None \<Rightarrow> p1 | Some v \<Rightarrow> p1\<lparr> ap_model := v \<rparr>);
               p3 = (case pu_tier updates of None \<Rightarrow> p2 | Some v \<Rightarrow> p2\<lparr> ap_tier := v \<rparr>);
               p4 = (case pu_dynamicPricing updates of None \<Rightarrow> p3
                     | Some v \<Rightarrow> p3\<lparr> ap_dynamicPricing := v \<rparr>);
               p5 = (case pu_customRates updates of None \<Rightarrow> p4
                     | Some v \<Rightarrow> p4\<lparr> ap_customRates := Some v \<rparr>)
           in (True, st\<lparr> agentPricing :=
                  AList.update agentId (p5\<lparr> ap_lastUpdated := now \<rparr>) (agentPricing st) \<rparr>)))"

definition createDiscountRule ::
  "string \<Rightarrow> DiscountType \<Rightarrow> real \<Rightarrow> real option \<Rightarrow> string list option \<Rightarrow> int option \<Rightarrow> int
     \<Rightarrow> pricing_state \<Rightarrow> DiscountRule \<times> pricing_state" where
  "createDiscountRule name type discountPercent minVolume walletAddresses validUntil now st =
     (let rule = \<lparr> dr_id = ''x402_discount_'' @ show_int now, dr_name = name, dr_type = type,
                   dr_discountPercent = min 100 (max 0 discountPercent),
                   dr_minVolume = minVolume, dr_walletAddresses = walletAddresses,
                   dr_validUntil = validUntil, dr_active = True \<rparr>
      in (rule, st\<lparr> discountRules := AList.update (dr_id rule) rule (discountRules st) \<rparr>))"

definition deactivateDiscountRule :: "string \<Rightarrow> pricing_state \<Rightarrow> bool \<times> pricing_state" where
  "deactivateDiscountRule ruleId st =
     (case map_of (discountRules st) ruleId of
        None \<Rightarrow> (False, st)
      | Some rule \<Rightarrow>
          (True, st\<lparr> discountRules :=
                  AList.update ruleId (rule\<lparr> dr_active := False \<rparr>) (discountRules st) \<rparr>))"

subsection \<open>Calls and runs\<close>

text \<open>
  The exported functions that write the pricing state; the others (\<^verbatim>\<open>calculatePrice\<close>,
  \<^verbatim>\<open>estimateCost\<close> and the getters) only read it.
\<close>

datatype pricing_op =
    RegisterAgentPricing string pricing_options
  | RecordRequest string string real
  | UpdateAgentPricing string pricing_updates
  | CreateDiscountRule string DiscountType real "real option" "string list option" "int option"
  | DeactivateDiscountRule string

fun pricing_step :: "int \<times> pricing_op \<Rightarrow> pricing_state \<Rightarrow> pricing_state" where
  "pricing_step (now, RegisterAgentPricing a opts) st = snd (registerAgentPricing a opts now st)"
| "pricing_step (now, RecordRequest a w amount) st = recordRequest a w amount now st"
| "pricing_step (now, UpdateAgentPricing a ups) st = snd (updateAgentPricing a ups now st)"
| "pricing_step (now, CreateDiscountRule n t p mv ws vu) st =
     snd (createDiscountRule n t p mv ws vu now st)"
| "pricing_step (now, DeactivateDiscountRule r) st = snd (deactivateDiscountRule r st)"

definition pricing_run :: "(int \<times> pricing_op) list \<Rightarrow> pricing_state \<Rightarrow> pricing_state" where
  "pricing_run calls st = fold pricing_step calls st"

subsection \<open>Auxiliary definitions\<close>

text \<open>The invariant of the pricing map: every multiplier lies between the two bounds.\<close>

definition multipliers_bounded :: "(string \<times> AgentPricing) list \<Rightarrow> bool" where
  "multipliers_bounded ps \<longleftrightarrow>
     (\<forall>a p. map_of ps a = Some p \<longrightarrow>
        MIN_PRICE_MULTIPLIER \<le> ap_currentMultiplier p \<and> ap_currentMultiplier p \<le> MAX_PRICE_MULTIPLIER)"

text \<open>The multiplier that \<^verbatim>\<open>updateDynamicPricing\<close> computes from the demand ratio.\<close>

definition next_multiplier :: "real \<Rightarrow> real \<Rightarrow> real" where
  "next_multiplier demandRatio m =
     (if demandRatio > 1.5 then min MAX_PRICE_MULTIPLIER (m * 1.1)
      else if demandRatio < 0.5 then max MIN_PRICE_MULTIPLIER (m * 0.95)
      else m)"

text \<open>
  A concrete pricing state for checks: an agent registered at time 0 with no options, one
  request at time 1000 (\<open>demo_quiet\<close>) and one at time 400000, after the demand window has
  rolled over (\<open>demo_busy\<close>): the demand ratio is 2 and the multiplier goes to 1.1.
\<close>

definition demo_options :: pricing_options where
  "demo_options = \<lparr> po_basePrice = None, po_model = None, po_tier = None,
      po_dynamicPricing = None, po_customRates = None \<rparr>"

definition demo_pricing :: AgentPricing where
  "demo_pricing = \<lparr> ap_agentId = ''agent'', ap_basePrice = 100000, ap_model = Per_request,
      ap_tier = Standard, ap_dynamicPricing = True, ap_currentMultiplier = 1,
      ap_lastUpdated = 0, ap_customRates = None \<rparr>"

definition demo_pricing_calls :: "(int \<times> pricing_op) list" where
  "demo_pricing_calls =
     [(0, RegisterAgentPricing ''agent'' demo_options),
      (1000, RecordRequest ''agent'' ''wallet'' 1),
      (400000, RecordRequest ''agent'' ''wallet'' 1)]"

definition demo_quiet :: pricing_state where
  "demo_quiet = pricing_run (take 2 demo_pricing_calls) pricing_init"

definition demo_busy :: pricing_state where
  "demo_busy = pricing_run demo_pricing_calls pricing_init"

text \<open>A pricing state with one agent of the free tier, for concrete checks.\<close>

definition demo_free_options :: pricing_options where
  "demo_free_options = \<lparr> po_basePrice = None, po_model = None, po_tier = Some Free,
      po_dynamicPricing = None, po_customRates = None \<rparr>"

definition demo_free :: pricing_state where
  "demo_free = snd (registerAgentPricing ''gratis'' demo_free_options 0 pricing_init)"

section \<open>Properties of the payment session store\<close>

















lemma demo_store_eq:
  "demo_store = \<lparr> sessions = [(''s1'', demo_session)], walletSessions = [(''wallet'', [''s1''])] \<rparr>"
  by (simp add: demo_store_def demo_session_def createSession_def Let_def
      config_expirationMinutes_def set_add_def)


text \<open>
  Claim C2. For a stored session that is pending and whose \<^verbatim>\<open>expiresAt\<close> is strictly before
  the clock, \<^verbatim>\<open>markSessionPaid\<close> returns false and leaves the session as it was but for the
  status, which is expired: \<^verbatim>\<open>paidAt\<close> and \<^verbatim>\<open>transactionSignature\<close> are not written.
\<close>

theorem markSessionPaid_after_expiry:
  assumes "map_of (sessions st) sid = Some x"
    and "ps_status x = Pending"
    and "now > ps_expiresAt x"
  shows "fst (markSessionPaid sid sg now st) = False
     \<and> map_of (sessions (snd (markSessionPaid sid sg now st))) sid
         = Some (x\<lparr> ps_status := Expired \<rparr>)
     \<and> ps_status (x\<lparr> ps_status := Expired \<rparr>) = Expired
     \<and> ps_paidAt (x\<lparr> ps_status := Expired \<rparr>) = ps_paidAt x
     \<and> ps_transactionSignature (x\<lparr> ps_status := Expired \<rparr>) = ps_transactionSignature x"
  using assms by (simp add: markSessionPaid_def update_conv')

theorem markSessionPaid_after_expiry_witness:
  "map_of (sessions demo_store) ''s1'' = Some demo_session
   \<and> ps_status demo_session = Pending
   \<and> 300001 > ps_expiresAt demo_session
   \<and> fst (markSessionPaid ''s1'' ''sig'' 300001 demo_store) = False
   \<and> map_of (sessions (snd (markSessionPaid ''s1'' ''sig'' 300001 demo_store))) ''s1''
       = Some (demo_session\<lparr> ps_status := Expired \<rparr>)"
proof -
  have h1: "map_of (sessions demo_store) ''s1'' = Some demo_session"
    by (simp add: demo_store_eq)
  have h2: "ps_status demo_session = Pending"
    by (simp add: demo_session_def)
  have h3: "300001 > ps_expiresAt demo_session"
    by (simp add: demo_session_def)
  from markSessionPaid_after_expiry [OF h1 h2 h3, of "''sig''"] h1 h2 h3
  show ?thesis by simp
qed

section \<open>Properties of the escrow ledger\<close>

lemma createEscrow_account:
  assumes "map_of (escrowAccounts st) eid = Some e"
    and "map_of (escrowAccounts st) (generateEscrowId now tok) = None"
  shows "map_of (escrowAccounts (snd (createEscrow tok now d b a c ex md st))) eid = Some e"
proof -
  from assms have "generateEscrowId now tok \<noteq> eid" by auto
  with assms(1) show ?thesis
    by (simp add: createEscrow_def Let_def update_conv')
qed

lemma releaseEscrow_account:
  assumes "map_of (escrowAccounts st) eid = Some e"
  shows "map_of (escrowAccounts (snd (releaseEscrow i a now st))) eid =
           Some (if i = eid \<and> ea_status e = Held \<and> a = ea_depositor e
                 then e\<lparr> ea_status := Released, ea_releasedAt := Some now \<rparr> else e)"
  using assms
  by (auto simp: releaseEscrow_def Let_def update_conv' split: option.splits)

lemma refundEscrow_account:
  assumes "map_of (escrowAccounts st) eid = Some e"
  shows "map_of (escrowAccounts (snd (refundEscrow i rs now st))) eid =
           Some (if i = eid \<and> (ea_status e = Held \<or> ea_status e = Disputed)
                 then e\<lparr> ea_status := Refunded, ea_releasedAt := Some now \<rparr> else e)"
  using assms
  by (auto simp: refundEscrow_def Let_def update_conv' split: option.splits)

lemma initiateDispute_account:
  assumes "map_of (escrowAccounts st) eid = Some e"
  shows "map_of (escrowAccounts (snd (initiateDispute i who rs ev now st))) eid =
           Some (if i = eid \<and> ea_status e = Held
                    \<and> (who = ea_depositor e \<or> who = ea_beneficiary e)
                    \<and> map_of (activeDisputes st) i = None
                 then e\<lparr> ea_status := Disputed \<rparr> else e)"
proof (cases "i = eid")
  case True
  with assms show ?thesis
    by (cases "map_of (activeDisputes st) eid")
       (simp_all add: initiateDispute_def Let_def update_conv')
next
  case False
  with assms show ?thesis
    by (cases "map_of (escrowAccounts st) i"; cases "map_of (activeDisputes st) i")
       (simp_all add: initiateDispute_def Let_def update_conv')
qed

lemma resolveDispute_account:
  assumes "map_of (escrowAccounts st) eid = Some e"
  shows "map_of (escrowAccounts (snd (resolveDispute i res now st))) eid =
           Some (if i = eid \<and> ea_status e = Disputed \<and> map_of (activeDisputes st) i \<noteq> None
                 then e\<lparr> ea_status := (if res = Refund then Refunded else Released),
                          ea_releasedAt := Some now \<rparr>
                 else e)"
  using assms
  by (auto simp: resolveDispute_def Let_def update_conv' split: option.splits)

lemma extendEscrowExpiry_account:
  assumes "map_of (escrowAccounts st) eid = Some e"
  shows "map_of (escrowAccounts (snd (extendEscrowExpiry i ms st))) eid =
           Some (if i = eid \<and> ea_status e = Held
                 then e\<lparr> ea_expiresAt := ea_expiresAt e + ms \<rparr> else e)"
  using assms
  by (auto simp: extendEscrowExpiry_def update_conv' split: option.splits)

lemma sweep_idem: "sweep now (sweep now e) = sweep now e"
  by (simp add: sweep_def)

lemma expire_entry_account:
  assumes "map_of (escrowAccounts (fst acc)) eid = Some e"
  shows "map_of (escrowAccounts (fst (expire_entry now i acc))) eid = Some e
       \<or> map_of (escrowAccounts (fst (expire_entry now i acc))) eid = Some (sweep now e)"
  using assms
  by (cases acc) (auto simp: expire_entry_def sweep_def Let_def update_conv' split: option.splits)

lemma fold_expire_account:
  assumes "map_of (escrowAccounts (fst acc)) eid = Some e"
  shows "map_of (escrowAccounts (fst (fold (expire_entry now) ks acc))) eid = Some e
       \<or> map_of (escrowAccounts (fst (fold (expire_entry now) ks acc))) eid = Some (sweep now e)"
  using assms
proof (induction ks arbitrary: acc e)
  case Nil
  then show ?case by simp
next
  case (Cons k ks)
  from expire_entry_account [OF Cons.prems, of now k]
  show ?case
  proof
    assume "map_of (escrowAccounts (fst (expire_entry now k acc))) eid = Some e"
    from Cons.IH [OF this] show ?thesis by simp
  next
    assume "map_of (escrowAccounts (fst (expire_entry now k acc))) eid = Some (sweep now e)"
    from Cons.IH [OF this] show ?thesis by (simp add: sweep_idem)
  qed
qed

lemma checkExpiredEscrows_account:
  assumes "map_of (escrowAccounts st) eid = Some e"
  shows "map_of (escrowAccounts (snd (checkExpiredEscrows now st))) eid = Some e
       \<or> map_of (escrowAccounts (snd (checkExpiredEscrows now st))) eid = Some (sweep now e)"
  using fold_expire_account [of "(st, [])" eid e now "map fst (escrowAccounts st)"] assms
  by (auto simp: checkExpiredEscrows_def split: prod.splits)

lemma checkExpiredEscrows_not_held:
  assumes "map_of (escrowAccounts st) eid = Some e" and "ea_status e \<noteq> Held"
  shows "map_of (escrowAccounts (snd (checkExpiredEscrows now st))) eid = Some e"
  using checkExpiredEscrows_account [OF assms(1), of now] assms(2)
  by (auto simp: sweep_def)

lemma snd_case_result [simp]: "snd (case p of (r, x) \<Rightarrow> (f r, x)) = snd p"
  by (cases p) simp

lemma fst_case_result [simp]: "fst (case p of (r, x) \<Rightarrow> (f r, x)) = f (fst p)"
  by (cases p) simp

text \<open>A settled account (released, refunded or expired) is never written again.\<close>

lemma escrow_exec_settled:
  assumes "map_of (escrowAccounts st) eid = Some e"
    and "ea_status e \<noteq> Held" and "ea_status e \<noteq> Disputed"
    and "escrow_op_fresh now op st"
  shows "map_of (escrowAccounts (snd (escrow_exec now op st))) eid = Some e"
proof (cases op)
  case (CreateEscrow tok d b a c ex md)
  with assms createEscrow_account [OF assms(1), of now tok d b a c ex md]
  show ?thesis by simp
next
  case (ReleaseEscrow i a)
  with assms releaseEscrow_account [OF assms(1), of i a now]
  show ?thesis by simp
next
  case (RefundEscrow i rs)
  with assms refundEscrow_account [OF assms(1), of i rs now]
  show ?thesis by simp
next
  case (InitiateDispute i who rs ev)
  with assms initiateDispute_account [OF assms(1), of i who rs ev now]
  show ?thesis by simp
next
  case (ResolveDispute i res)
  with assms resolveDispute_account [OF assms(1), of i res now]
  show ?thesis by simp
next
  case CheckExpiredEscrows
  with assms checkExpiredEscrows_not_held [OF assms(1,2), of now]
  show ?thesis by simp
next
  case (ExtendEscrowExpiry i ms)
  with assms extendEscrowExpiry_account [OF assms(1), of i ms]
  show ?thesis by simp
qed

lemma releaseEscrow_not_held:
  assumes "map_of (escrowAccounts st) eid = Some e" and "ea_status e \<noteq> Held"
  shows "releaseEscrow eid a now st = (False, st)"
  using assms by (simp add: releaseEscrow_def)

lemma release_successes_settled:
  assumes "map_of (escrowAccounts st) eid = Some e"
    and "ea_status e \<noteq> Held" and "ea_status e \<noteq> Disputed"
    and "fresh_run st calls"
  shows "release_successes eid st calls = 0"
  using assms
proof (induction calls arbitrary: st)
  case Nil
  then show ?case by simp
next
  case (Cons c calls)
  obtain now op where c: "c = (now, op)" by (cases c)
  obtain r st' where ex: "escrow_exec now op st = (r, st')" by (cases "escrow_exec now op st")
  from Cons.prems c have fr: "escrow_op_fresh now op st" and fr': "fresh_run st' calls"
    using ex by auto
  from escrow_exec_settled [OF Cons.prems(1-3) fr] ex
  have acc': "map_of (escrowAccounts st') eid = Some e" by simp
  have no: "\<not> (is_release_of eid op \<and> r = RBool True)"
  proof (cases op)
    case (ReleaseEscrow i a)
    with releaseEscrow_not_held [OF Cons.prems(1,2), of a now] ex
    show ?thesis by auto
  qed simp_all
  from Cons.IH [OF acc' Cons.prems(2,3) fr'] no c ex
  show ?case by simp
qed

lemma show_int_1000: "show_int 1000 = ''1000''"
  by (simp add: show_int_def show_nat.simps digit_char_def)

lemma demo_id_eq: "generateEscrowId 1000 demo_token = demo_id"
  by (simp add: generateEscrowId_def show_int_1000 demo_token_def demo_id_def)

lemma demo_addresses:
  "validateSolanaAddress demo_depositor" "validateSolanaAddress demo_beneficiary"
  "demo_depositor \<noteq> demo_beneficiary"
  by (simp_all add: validateSolanaAddress_def demo_depositor_def demo_beneficiary_def
      base58_chars_def)

lemma demo_held_accounts: "escrowAccounts demo_held = [(demo_id, demo_account)]"
  by (simp add: demo_held_def createEscrow_def demo_addresses MIN_ESCROW_AMOUNT_def
      MAX_ESCROW_AMOUNT_def Let_def demo_id_eq escrow_init_def demo_account_def
      calculateEscrowFee_def ESCROW_FEE_PERCENT_def ESCROW_EXPIRY_MS_def)

lemma demo_held_disputes: "activeDisputes demo_held = []"
  by (simp add: demo_held_def createEscrow_def demo_addresses MIN_ESCROW_AMOUNT_def
      MAX_ESCROW_AMOUNT_def Let_def escrow_init_def)

lemma demo_disputed_accounts:
  "escrowAccounts demo_disputed = [(demo_id, demo_account\<lparr> ea_status := Disputed \<rparr>)]"
  by (simp add: demo_disputed_def initiateDispute_def demo_held_accounts demo_held_disputes
      Let_def demo_account_def)

lemma demo_disputed_disputes:
  "map_of (activeDisputes demo_disputed) demo_id =
     Some \<lparr> ed_escrowId = demo_id, ed_initiatedBy = demo_depositor, ed_reason = ''late'',
            ed_evidence = [], ed_createdAt = 2000, ed_resolvedAt = None, ed_resolution = None \<rparr>"
  by (simp add: demo_disputed_def initiateDispute_def demo_held_accounts demo_held_disputes
      Let_def demo_account_def)

lemma releaseEscrow_success:
  assumes "releaseEscrow i a now st = (True, st')"
  shows "\<exists>e'. map_of (escrowAccounts st') i = Some e' \<and> ea_status e' = Released"
proof (cases "map_of (escrowAccounts st) i")
  case None
  with assms show ?thesis by (simp add: releaseEscrow_def)
next
  case (Some e)
  from assms Some have "ea_status e = Held \<and> a = ea_depositor e"
    by (auto simp: releaseEscrow_def split: if_splits)
  with releaseEscrow_account [OF Some, of i a now] assms
  show ?thesis by simp
qed

lemma release_successes_le_1:
  assumes "fresh_run st calls"
  shows "release_successes eid st calls \<le> 1"
  using assms
proof (induction calls arbitrary: st)
  case Nil
  then show ?case by simp
next
  case (Cons c calls)
  obtain now op where c: "c = (now, op)" by (cases c)
  obtain r st' where ex: "escrow_exec now op st = (r, st')" by (cases "escrow_exec now op st")
  from Cons.prems c ex have fr': "fresh_run st' calls" by auto
  show ?case
  proof (cases "is_release_of eid op \<and> r = RBool True")
    case True
    then obtain a where op: "op = ReleaseEscrow eid a" by (cases op) auto
    with True ex have "releaseEscrow eid a now st = (True, st')"
      by (auto split: prod.splits)
    from releaseEscrow_success [OF this]
    obtain e' where "map_of (escrowAccounts st') eid = Some e'" "ea_status e' = Released"
      by auto
    from release_successes_settled [OF this(1) _ _ fr'] this(2)
    have "release_successes eid st' calls = 0" by simp
    with True c ex show ?thesis by simp
  next
    case False
    with Cons.IH [OF fr'] c ex show ?thesis by auto
  qed
qed

text \<open>
  Claim C3. \<^verbatim>\<open>releaseEscrow(escrowId, authorizedBy)\<close> returns false and leaves the ledger as it
  was whenever \<open>authorizedBy\<close> is not the depositor recorded for \<open>escrowId\<close>. In any run
  of calls of the ledger's functions, from any state, at most one call of
  \<^verbatim>\<open>releaseEscrow\<close> on a given id returns true: after a release that returns true the
  account has status released, every later \<^verbatim>\<open>releaseEscrow\<close> on the id returns false, and
  no run of calls brings a successful one back. The identifiers that \<^verbatim>\<open>createEscrow\<close>
  generates in the run are assumed new (\<open>fresh_run\<close>).
\<close>

theorem releaseEscrow_depositor_once:
  assumes "fresh_run st calls"
  shows "((\<forall>e. map_of (escrowAccounts st) eid = Some e \<longrightarrow> authorizedBy \<noteq> ea_depositor e)
            \<longrightarrow> releaseEscrow eid authorizedBy now st = (False, st))
     \<and> release_successes eid st calls \<le> 1
     \<and> (\<forall>a st'. releaseEscrow eid a now st = (True, st') \<longrightarrow>
           (\<exists>e'. map_of (escrowAccounts st') eid = Some e' \<and> ea_status e' = Released)
           \<and> (\<forall>a' now'. releaseEscrow eid a' now' st' = (False, st'))
           \<and> (\<forall>calls'. fresh_run st' calls' \<longrightarrow> release_successes eid st' calls' = 0))"
proof -
  have p1: "(\<forall>e. map_of (escrowAccounts st) eid = Some e \<longrightarrow> authorizedBy \<noteq> ea_depositor e)
            \<longrightarrow> releaseEscrow eid authorizedBy now st = (False, st)"
    by (cases "map_of (escrowAccounts st) eid") (simp_all add: releaseEscrow_def)
  have p2: "release_successes eid st calls \<le> 1"
    by (rule release_successes_le_1 [OF assms])
  have p3: "(\<exists>e'. map_of (escrowAccounts st') eid = Some e' \<and> ea_status e' = Released)
           \<and> (\<forall>a' now'. releaseEscrow eid a' now' st' = (False, st'))
           \<and> (\<forall>calls'. fresh_run st' calls' \<longrightarrow> release_successes eid st' calls' = 0)"
    if ok: "releaseEscrow eid a now st = (True, st')" for a st'
  proof -
    from releaseEscrow_success [OF ok]
    obtain e' where e': "map_of (escrowAccounts st') eid = Some e'" "ea_status e' = Released"
      by auto
    have "releaseEscrow eid a' now' st' = (False, st')" for a' now'
      using releaseEscrow_not_held [OF e'(1)] e'(2) by simp
    moreover have "release_successes eid st' calls' = 0" if "fresh_run st' calls'" for calls'
      using release_successes_settled [OF e'(1) _ _ that] e'(2) by simp
    ultimately show ?thesis using e' by blast
  qed
  from p1 p2 p3 show ?thesis by blast
qed

lemma demo_calls_run:
  "fresh_run escrow_init demo_calls" "release_successes demo_id escrow_init demo_calls = 1"
proof -
  have c: "createEscrow demo_token 1000 demo_depositor demo_beneficiary 10 ''cond'' None None
             escrow_init = (Some demo_account, demo_held)"
    by (simp add: demo_held_def createEscrow_def demo_addresses MIN_ESCROW_AMOUNT_def
      MAX_ESCROW_AMOUNT_def Let_def demo_id_eq demo_account_def
      calculateEscrowFee_def ESCROW_FEE_PERCENT_def ESCROW_EXPIRY_MS_def)
  obtain st2 where r1: "releaseEscrow demo_id demo_depositor 2000 demo_held = (True, st2)"
    by (simp add: releaseEscrow_def demo_held_accounts demo_account_def Let_def)
  from releaseEscrow_success [OF r1]
  obtain e' where e': "map_of (escrowAccounts st2) demo_id = Some e'" "ea_status e' = Released"
    by auto
  have r2: "releaseEscrow demo_id demo_depositor 3000 st2 = (False, st2)"
    using releaseEscrow_not_held [OF e'(1)] e'(2) by simp
  show "fresh_run escrow_init demo_calls"
    by (simp add: demo_calls_def demo_id_eq escrow_init_def)
  show "release_successes demo_id escrow_init demo_calls = 1"
    by (simp add: demo_calls_def c r1 r2)
qed

theorem releaseEscrow_depositor_once_witness:
  "fresh_run escrow_init demo_calls
   \<and> release_successes demo_id escrow_init demo_calls = 1
   \<and> release_successes demo_id escrow_init demo_calls \<le> 1
   \<and> releaseEscrow demo_id demo_beneficiary 1500 demo_held = (False, demo_held)"
proof -
  have h: "fresh_run escrow_init demo_calls" by (rule demo_calls_run)
  have d: "\<forall>e. map_of (escrowAccounts demo_held) demo_id = Some e
             \<longrightarrow> demo_beneficiary \<noteq> ea_depositor e"
    using demo_addresses(3) by (simp add: demo_held_accounts demo_account_def)
  have f: "fresh_run demo_held []" by simp
  from releaseEscrow_depositor_once [OF h, of demo_id]
  have "release_successes demo_id escrow_init demo_calls \<le> 1" by blast
  moreover from releaseEscrow_depositor_once [OF f, of demo_id demo_beneficiary 1500] d
  have "releaseEscrow demo_id demo_beneficiary 1500 demo_held = (False, demo_held)" by blast
  ultimately show ?thesis using h demo_calls_run(2) by simp
qed

lemma refundEscrow_open:
  assumes "map_of (escrowAccounts st) eid = Some e"
    and "ea_status e = Held \<or> ea_status e = Disputed"
  shows "fst (refundEscrow eid rs now st) = True"
    and "map_of (escrowAccounts (snd (refundEscrow eid rs now st))) eid =
           Some (e\<lparr> ea_status := Refunded, ea_releasedAt := Some now \<rparr>)"
    and "em_activeEscrows (escrowMetrics (snd (refundEscrow eid rs now st))) =
           em_activeEscrows (escrowMetrics st) - 1"
  using assms
  by (auto simp: refundEscrow_def Let_def update_conv' updateAverageHoldTime_def)

text \<open>
  Claim C4 as stated fails at \<^verbatim>\<open>refundEscrow\<close>, whose guard rejects only a status that is
  neither held nor disputed: on the disputed escrow of \<open>demo_disputed\<close> it returns true
  and the status becomes refunded.
\<close>

theorem disputed_refund_counterexample:
  "map_of (escrowAccounts demo_disputed) demo_id = Some (demo_account\<lparr> ea_status := Disputed \<rparr>)
   \<and> ea_status (demo_account\<lparr> ea_status := Disputed \<rparr>) = Disputed
   \<and> fst (refundEscrow demo_id ''changed mind'' 3000 demo_disputed) = True
   \<and> map_of (escrowAccounts (snd (refundEscrow demo_id ''changed mind'' 3000 demo_disputed))) demo_id
       = Some (demo_account\<lparr> ea_status := Refunded, ea_releasedAt := Some 3000 \<rparr>)
   \<and> ea_status (demo_account\<lparr> ea_status := Refunded, ea_releasedAt := Some 3000 \<rparr>) \<noteq> Disputed"
proof -
  have a: "map_of (escrowAccounts demo_disputed) demo_id
             = Some (demo_account\<lparr> ea_status := Disputed \<rparr>)"
    by (simp add: demo_disputed_accounts)
  have b: "ea_status (demo_account\<lparr> ea_status := Disputed \<rparr>) = Held
             \<or> ea_status (demo_account\<lparr> ea_status := Disputed \<rparr>) = Disputed"
    by simp
  from refundEscrow_open [OF a b, of "''changed mind''" 3000] a
  show ?thesis by simp
qed

lemma resolveDispute_disputed:
  assumes "map_of (escrowAccounts st) eid = Some e"
    and "ea_status e = Disputed"
    and "map_of (activeDisputes st) eid = Some d"
  shows "resolveDispute eid res now st =
           (True,
            st\<lparr> escrowAccounts :=
                  AList.update eid
                    (e\<lparr> ea_status := (if res = Refund then Refunded else Released),
                       ea_releasedAt := Some now \<rparr>) (escrowAccounts st),
                activeDisputes := AList.delete eid (activeDisputes st),
                escrowMetrics :=
                  (escrowMetrics st)
                    \<lparr> em_activeEscrows := em_activeEscrows (escrowMetrics st) - 1,
                      em_totalReleased := em_totalReleased (escrowMetrics st)
                                            + (if res = Refund then 0 else 1),
                      em_totalRefunded := em_totalRefunded (escrowMetrics st)
                                            + (if res = Refund then 1 else 0) \<rparr> \<rparr>)"
  using assms
  by (cases res) (simp_all add: resolveDispute_def Let_def delete_update_same)

text \<open>
  Claim C4, amended. For every disputed escrow, \<^verbatim>\<open>releaseEscrow\<close> returns false and changes
  nothing, and the expiry sweep \<^verbatim>\<open>checkExpiredEscrows\<close> leaves the account as it is. Of
  all the ledger's writing functions only \<^verbatim>\<open>resolveDispute\<close> and \<^verbatim>\<open>refundEscrow\<close> on that
  id change the account: \<^verbatim>\<open>refundEscrow\<close> returns true and moves it to refunded;
  \<^verbatim>\<open>resolveDispute\<close>, when the dispute is on record, returns true and moves it to refunded
  (resolution refund) or released (resolution release or split).
\<close>

theorem disputed_frozen_except_refund:
  assumes "map_of (escrowAccounts st) eid = Some e"
    and "ea_status e = Disputed"
    and "escrow_op_fresh now op st"
  shows "releaseEscrow eid a now st = (False, st)
     \<and> map_of (escrowAccounts (snd (checkExpiredEscrows now st))) eid = Some e
     \<and> (\<exists>e'. map_of (escrowAccounts (snd (escrow_exec now op st))) eid = Some e'
           \<and> (e' = e
              \<or> ((\<exists>res. op = ResolveDispute eid res) \<and> (ea_status e' = Released \<or> ea_status e' = Refunded))
              \<or> ((\<exists>rs. op = RefundEscrow eid rs) \<and> ea_status e' = Refunded)))
     \<and> fst (refundEscrow eid rs now st) = True
     \<and> map_of (escrowAccounts (snd (refundEscrow eid rs now st))) eid
          = Some (e\<lparr> ea_status := Refunded, ea_releasedAt := Some now \<rparr>)
     \<and> (map_of (activeDisputes st) eid \<noteq> None \<longrightarrow>
          fst (resolveDispute eid res now st) = True
          \<and> map_of (escrowAccounts (snd (resolveDispute eid res now st))) eid
               = Some (e\<lparr> ea_status := (if res = Refund then Refunded else Released),
                         ea_releasedAt := Some now \<rparr>))"
proof -
  have p1: "releaseEscrow eid a now st = (False, st)"
    using releaseEscrow_not_held [OF assms(1)] assms(2) by simp
  have p2: "map_of (escrowAccounts (snd (checkExpiredEscrows now st))) eid = Some e"
    using checkExpiredEscrows_not_held [OF assms(1)] assms(2) by simp
  have p3: "\<exists>e'. map_of (escrowAccounts (snd (escrow_exec now op st))) eid = Some e'
           \<and> (e' = e
              \<or> ((\<exists>res. op = ResolveDispute eid res) \<and> (ea_status e' = Released \<or> ea_status e' = Refunded))
              \<or> ((\<exists>rs. op = RefundEscrow eid rs) \<and> ea_status e' = Refunded))"
  proof (cases op)
    case (CreateEscrow tok d b am c ex md)
    with assms createEscrow_account [OF assms(1), of now tok d b am c ex md]
    show ?thesis by simp
  next
    case (ReleaseEscrow i au)
    with assms releaseEscrow_account [OF assms(1), of i au now]
    show ?thesis by simp
  next
    case (RefundEscrow i rs')
    with assms refundEscrow_account [OF assms(1), of i rs' now]
    show ?thesis by simp
  next
    case (InitiateDispute i who rs' ev)
    with assms initiateDispute_account [OF assms(1), of i who rs' ev now]
    show ?thesis by simp
  next
    case (ResolveDispute i res')
    with assms resolveDispute_account [OF assms(1), of i res' now]
    show ?thesis by simp
  next
    case CheckExpiredEscrows
    with p2 show ?thesis by simp
  next
    case (ExtendEscrowExpiry i ms)
    with assms extendEscrowExpiry_account [OF assms(1), of i ms]
    show ?thesis by simp
  qed
  have p4: "fst (refundEscrow eid rs now st) = True"
    and p5: "map_of (escrowAccounts (snd (refundEscrow eid rs now st))) eid
          = Some (e\<lparr> ea_status := Refunded, ea_releasedAt := Some now \<rparr>)"
    using refundEscrow_open [OF assms(1), of rs now] assms(2) by simp_all
  have p6: "fst (resolveDispute eid res now st) = True
          \<and> map_of (escrowAccounts (snd (resolveDispute eid res now st))) eid
               = Some (e\<lparr> ea_status := (if res = Refund then Refunded else Released),
                         ea_releasedAt := Some now \<rparr>)"
    if "map_of (activeDisputes st) eid \<noteq> None"
  proof -
    from that obtain d where "map_of (activeDisputes st) eid = Some d" by auto
    from resolveDispute_disputed [OF assms(1,2) this, of res now]
    show ?thesis by (simp add: update_conv')
  qed
  from p1 p2 p3 p4 p5 p6 show ?thesis by blast
qed

theorem disputed_frozen_except_refund_witness:
  "map_of (escrowAccounts demo_disputed) demo_id = Some (demo_account\<lparr> ea_status := Disputed \<rparr>)
   \<and> ea_status (demo_account\<lparr> ea_status := Disputed \<rparr>) = Disputed
   \<and> escrow_op_fresh 3000 CheckExpiredEscrows demo_disputed
   \<and> map_of (activeDisputes demo_disputed) demo_id \<noteq> None
   \<and> releaseEscrow demo_id demo_depositor 3000 demo_disputed = (False, demo_disputed)
   \<and> map_of (escrowAccounts (snd (checkExpiredEscrows 3000 demo_disputed))) demo_id
       = Some (demo_account\<lparr> ea_status := Disputed \<rparr>)
   \<and> fst (resolveDispute demo_id Refund 3000 demo_disputed) = True"
proof -
  have a: "map_of (escrowAccounts demo_disputed) demo_id
             = Some (demo_account\<lparr> ea_status := Disputed \<rparr>)"
    by (simp add: demo_disputed_accounts)
  have b: "ea_status (demo_account\<lparr> ea_status := Disputed \<rparr>) = Disputed" by simp
  have c: "escrow_op_fresh 3000 CheckExpiredEscrows demo_disputed" by simp
  have d: "map_of (activeDisputes demo_disputed) demo_id \<noteq> None"
    by (simp add: demo_disputed_disputes)
  from disputed_frozen_except_refund [OF a b c, of demo_depositor "''x''" Refund] a b c d
  show ?thesis by simp
qed

text \<open>
  Claim C5. For every escrow with status disputed and a dispute on record,
  \<^verbatim>\<open>resolveDispute(escrowId, "split")\<close> returns true, sets the status to released and adds
  one to \<^verbatim>\<open>totalReleased\<close>; its result and the ledger it leaves are those of
  \<^verbatim>\<open>resolveDispute(escrowId, "release")\<close>. (The \<^verbatim>\<open>resolution\<close> field written into the
  dispute record differs, and the record is deleted from the ledger in the same call.)
\<close>

theorem resolveDispute_split_is_release:
  assumes "map_of (escrowAccounts st) eid = Some e"
    and "ea_status e = Disputed"
    and "map_of (activeDisputes st) eid = Some d"
  shows "resolveDispute eid Split now st = resolveDispute eid Release now st
     \<and> fst (resolveDispute eid Split now st) = True
     \<and> map_of (escrowAccounts (snd (resolveDispute eid Split now st))) eid
          = Some (e\<lparr> ea_status := Released, ea_releasedAt := Some now \<rparr>)
     \<and> em_totalReleased (escrowMetrics (snd (resolveDispute eid Split now st)))
          = em_totalReleased (escrowMetrics st) + 1"
  using resolveDispute_disputed [OF assms, of Split now]
        resolveDispute_disputed [OF assms, of Release now]
  by (simp add: update_conv')

theorem resolveDispute_split_is_release_witness:
  "map_of (escrowAccounts demo_disputed) demo_id = Some (demo_account\<lparr> ea_status := Disputed \<rparr>)
   \<and> ea_status (demo_account\<lparr> ea_status := Disputed \<rparr>) = Disputed
   \<and> map_of (activeDisputes demo_disputed) demo_id =
       Some \<lparr> ed_escrowId = demo_id, ed_initiatedBy = demo_depositor, ed_reason = ''late'',
              ed_evidence = [], ed_createdAt = 2000, ed_resolvedAt = None, ed_resolution = None \<rparr>
   \<and> resolveDispute demo_id Split 3000 demo_disputed = resolveDispute demo_id Release 3000 demo_disputed
   \<and> fst (resolveDispute demo_id Split 3000 demo_disputed) = True
   \<and> map_of (escrowAccounts (snd (resolveDispute demo_id Split 3000 demo_disputed))) demo_id
       = Some (demo_account\<lparr> ea_status := Released, ea_releasedAt := Some 3000 \<rparr>)"
proof -
  have a: "map_of (escrowAccounts demo_disputed) demo_id
             = Some (demo_account\<lparr> ea_status := Disputed \<rparr>)"
    by (simp add: demo_disputed_accounts)
  have b: "ea_status (demo_account\<lparr> ea_status := Disputed \<rparr>) = Disputed" by simp
  note c = demo_disputed_disputes
  from resolveDispute_split_is_release [OF a b c, of 3000] a b c
  show ?thesis by auto
qed

lemma createEscrow_ok:
  assumes "validateSolanaAddress A" and "validateSolanaAddress B" and "A \<noteq> B"
    and "MIN_ESCROW_AMOUNT \<le> amount" and "amount \<le> MAX_ESCROW_AMOUNT"
  shows "\<exists>r st1. createEscrow tok now A B amount c ex md st = (Some r, st1)
           \<and> ea_status r = Held \<and> ea_fee r = amount * (0.5 / 100) \<and> ea_amount r = amount
           \<and> ea_depositor r = A \<and> ea_beneficiary r = B
           \<and> map_of (escrowAccounts st1) (ea_id r) = Some r
           \<and> em_activeEscrows (escrowMetrics st1) = em_activeEscrows (escrowMetrics st) + 1"
  using assms
  by (simp add: createEscrow_def Let_def update_conv' calculateEscrowFee_def
      ESCROW_FEE_PERCENT_def)

text \<open>
  Claim C9. For distinct addresses \<open>A\<close> and \<open>B\<close> that both pass
  \<^verbatim>\<open>validateSolanaAddress\<close>, \<^verbatim>\<open>createEscrow(A, B, 10, "cond")\<close> returns a record with status
  held and fee 0.05, stored under its id; a \<^verbatim>\<open>refundEscrow\<close> on that id right after returns
  true, sets the status to refunded and lowers \<^verbatim>\<open>activeEscrows\<close> by exactly one. Amounts
  are exact reals here; in IEEE doubles \<^verbatim>\<open>10 * (0.5 / 100)\<close> is the double \<^verbatim>\<open>0.05\<close> as well.
\<close>

theorem createEscrow_then_refund:
  assumes "validateSolanaAddress A" and "validateSolanaAddress B" and "A \<noteq> B"
  shows "case createEscrow tok now A B 10 ''cond'' ex md st of
           (None, st1) \<Rightarrow> False
         | (Some r, st1) \<Rightarrow>
             ea_status r = Held \<and> ea_fee r = 0.05
             \<and> map_of (escrowAccounts st1) (ea_id r) = Some r
             \<and> fst (refundEscrow (ea_id r) reason now' st1) = True
             \<and> map_of (escrowAccounts (snd (refundEscrow (ea_id r) reason now' st1))) (ea_id r)
                  = Some (r\<lparr> ea_status := Refunded, ea_releasedAt := Some now' \<rparr>)
             \<and> em_activeEscrows (escrowMetrics (snd (refundEscrow (ea_id r) reason now' st1)))
                  = em_activeEscrows (escrowMetrics st1) - 1"
proof -
  have "MIN_ESCROW_AMOUNT \<le> 10" and "10 \<le> MAX_ESCROW_AMOUNT"
    by (simp_all add: MIN_ESCROW_AMOUNT_def MAX_ESCROW_AMOUNT_def)
  from createEscrow_ok [OF assms this, of tok now "''cond''" ex md st]
  obtain r st1 where c: "createEscrow tok now A B 10 ''cond'' ex md st = (Some r, st1)"
    and r: "ea_status r = Held" "ea_fee r = 10 * (0.5 / 100)"
    and m: "map_of (escrowAccounts st1) (ea_id r) = Some r"
    by blast
  from r(1) have open_r: "ea_status r = Held \<or> ea_status r = Disputed" by simp
  from refundEscrow_open [OF m open_r, of reason now'] c r m
  show ?thesis by simp
qed

theorem createEscrow_then_refund_witness:
  "validateSolanaAddress demo_depositor \<and> validateSolanaAddress demo_beneficiary
   \<and> demo_depositor \<noteq> demo_beneficiary
   \<and> createEscrow demo_token 1000 demo_depositor demo_beneficiary 10 ''cond'' None None escrow_init
       = (Some demo_account, demo_held)
   \<and> ea_fee demo_account = 0.05
   \<and> fst (refundEscrow demo_id ''unused'' 5000 demo_held) = True
   \<and> map_of (escrowAccounts (snd (refundEscrow demo_id ''unused'' 5000 demo_held))) demo_id
       = Some (demo_account\<lparr> ea_status := Refunded, ea_releasedAt := Some 5000 \<rparr>)
   \<and> em_activeEscrows (escrowMetrics demo_held) = 1
   \<and> em_activeEscrows (escrowMetrics (snd (refundEscrow demo_id ''unused'' 5000 demo_held))) = 0"
proof -
  have c: "createEscrow demo_token 1000 demo_depositor demo_beneficiary 10 ''cond'' None None
             escrow_init = (Some demo_account, demo_held)"
    by (simp add: demo_held_def createEscrow_def demo_addresses MIN_ESCROW_AMOUNT_def
      MAX_ESCROW_AMOUNT_def Let_def demo_id_eq demo_account_def
      calculateEscrowFee_def ESCROW_FEE_PERCENT_def ESCROW_EXPIRY_MS_def)
  have i: "ea_id demo_account = demo_id" by (simp add: demo_account_def)
  have f: "ea_fee demo_account = 0.05" by (simp add: demo_account_def)
  have n: "em_activeEscrows (escrowMetrics demo_held) = 1"
    by (simp add: demo_held_def createEscrow_def demo_addresses MIN_ESCROW_AMOUNT_def
      MAX_ESCROW_AMOUNT_def Let_def escrow_init_def)
  from createEscrow_then_refund [OF demo_addresses, where tok = demo_token and now = 1000
      and ex = None and md = None and st = escrow_init and reason = "''unused''" and now' = 5000]
  show ?thesis using demo_addresses by (simp add: c i f n)
qed

section \<open>Properties of the rate limiter\<close>

lemma getBucketKey_inj:
  assumes "getBucketKey w t = getBucketKey w' t'"
  shows "t = t' \<and> w = w'"
proof -
  from assms have "rev (w @ '':'' @ type_name t) = rev (w' @ '':'' @ type_name t')"
    by (simp only: getBucketKey_def)
  then show ?thesis
    by (cases t; cases t') simp_all
qed

lemma counts_kept_refl: "counts_kept bs bs"
  by (simp add: counts_kept_def)

lemma counts_kept_trans: "counts_kept a b \<Longrightarrow> counts_kept b c \<Longrightarrow> counts_kept a c"
  unfolding counts_kept_def by fastforce

lemma within_ceiling_kept: "within_ceiling bs \<Longrightarrow> counts_kept bs bs' \<Longrightarrow> within_ceiling bs'"
  unfolding within_ceiling_def counts_kept_def by fastforce

lemma within_ceiling_update:
  assumes "within_ceiling bs" and "rb_count b \<le> getMaxForType t"
  shows "within_ceiling (AList.update (getBucketKey w t) b bs)"
  unfolding within_ceiling_def
proof (intro allI impI)
  fix w' t' b'
  assume h: "map_of (AList.update (getBucketKey w t) b bs) (getBucketKey w' t') = Some b'"
  show "rb_count b' \<le> getMaxForType t'"
  proof (cases "getBucketKey w' t' = getBucketKey w t")
    case True
    with h have "b' = b" by (simp add: update_conv')
    moreover from True have "t' = t" using getBucketKey_inj by blast
    ultimately show ?thesis using assms(2) by simp
  next
    case False
    with h have "map_of bs (getBucketKey w' t') = Some b'" by (simp add: update_conv')
    with assms(1) show ?thesis by (simp add: within_ceiling_def)
  qed
qed

lemma current_bucket_count:
  "rb_count (current_bucket w t now found) \<le> (case found of None \<Rightarrow> 0 | Some b \<Rightarrow> rb_count b)"
  by (simp add: current_bucket_def new_bucket_def split: option.splits)

lemma recordUsage_rejected:
  assumes "getMaxForType t \<le> rb_count (current_bucket w t now (map_of (rateLimitBuckets st) (getBucketKey w t)))"
  shows "fst (recordUsage w a t am su now st) = False"
    and "rateLimitBuckets (snd (recordUsage w a t am su now st)) =
           AList.update (getBucketKey w t)
             (let b = current_bucket w t now (map_of (rateLimitBuckets st) (getBucketKey w t));
                  b1 = b\<lparr> rb_violations := rb_violations b + 1 \<rparr>
              in if rb_violations b1 \<ge> 3
                 then b1\<lparr> rb_blocked := True, rb_blockedUntil := Some (now + COOLDOWN_PERIOD_MS) \<rparr>
                 else b1)
             (rateLimitBuckets st)"
  using assms
  by (simp_all add: recordUsage_def current_bucket_def Let_def split: prod.splits)

lemma recordUsage_accepted:
  assumes "\<not> getMaxForType t \<le> rb_count (current_bucket w t now (map_of (rateLimitBuckets st) (getBucketKey w t)))"
  shows "fst (recordUsage w a t am su now st) = True"
    and "rateLimitBuckets (snd (recordUsage w a t am su now st)) =
           AList.update (getBucketKey w t)
             (let b = current_bucket w t now (map_of (rateLimitBuckets st) (getBucketKey w t))
              in b\<lparr> rb_count := rb_count b + 1 \<rparr>)
             (rateLimitBuckets st)"
  using assms
  by (simp_all add: recordUsage_def current_bucket_def Let_def split: prod.splits)

lemma recordUsage_within:
  assumes "within_ceiling (rateLimitBuckets st)"
  shows "within_ceiling (rateLimitBuckets (snd (recordUsage w a t am su now st)))"
proof -
  let ?found = "map_of (rateLimitBuckets st) (getBucketKey w t)"
  let ?b = "current_bucket w t now ?found"
  have le: "rb_count ?b \<le> getMaxForType t"
  proof (cases ?found)
    case None
    then show ?thesis by (simp add: current_bucket_def new_bucket_def)
  next
    case (Some b)
    with assms have "rb_count b \<le> getMaxForType t" by (simp add: within_ceiling_def)
    with current_bucket_count [of w t now ?found] Some show ?thesis by simp
  qed
  show ?thesis
  proof (cases "getMaxForType t \<le> rb_count ?b")
    case True
    from recordUsage_rejected(2) [OF True, of a am su] le
    show ?thesis by (simp add: Let_def within_ceiling_update [OF assms])
  next
    case False
    from recordUsage_accepted(2) [OF False, of a am su] False
    show ?thesis by (simp add: Let_def within_ceiling_update [OF assms])
  qed
qed

lemma check_window_buckets:
  "rateLimitBuckets (snd (check_window w t now found st)) =
     AList.update (getBucketKey w t) (current_bucket w t now found) (rateLimitBuckets st)"
  by (simp add: check_window_def current_bucket_def Let_def)

lemma check_window_allowed:
  "allowed (fst (check_window w t now found st)) =
     (rb_count (current_bucket w t now found) < getMaxForType t)"
  by (simp add: check_window_def current_bucket_def Let_def)

lemma current_bucket_unblocked_count:
  "rb_count (current_bucket w t now (Some (b\<lparr> rb_blocked := False, rb_blockedUntil := None \<rparr>)))
     = rb_count (current_bucket w t now (Some b))"
  by (simp add: current_bucket_def new_bucket_def)

lemma checkRateLimit_within:
  assumes "within_ceiling (rateLimitBuckets st)"
  shows "within_ceiling (rateLimitBuckets (snd (checkRateLimit w t now st)))"
proof (cases "map_of (rateLimitBuckets st) (getBucketKey w t)")
  case None
  then show ?thesis
    by (simp add: checkRateLimit_def check_window_buckets current_bucket_def new_bucket_def
        within_ceiling_update [OF assms])
next
  case (Some b)
  with assms have le: "rb_count b \<le> getMaxForType t" by (simp add: within_ceiling_def)
  from current_bucket_count [of w t now "Some b"] le
  have c: "rb_count (current_bucket w t now (Some b)) \<le> getMaxForType t" by simp
  show ?thesis
    using Some assms c
    by (auto simp: checkRateLimit_def check_window_buckets current_bucket_unblocked_count
        within_ceiling_update split: option.splits)
qed

lemma unblock_type_kept:
  "counts_kept bs (fst acc) \<Longrightarrow> counts_kept bs (fst (unblock_type w t acc))"
  by (cases acc)
     (auto simp: unblock_type_def counts_kept_def update_conv' split: option.splits if_splits)

lemma unblockWallet_kept:
  "counts_kept (rateLimitBuckets st) (rateLimitBuckets (snd (unblockWallet w st)))"
proof -
  let ?acc0 = "(rateLimitBuckets st, False)"
  have "counts_kept (rateLimitBuckets st)
          (fst (unblock_type w Execution (unblock_type w Payment (unblock_type w Request ?acc0))))"
    by (intro unblock_type_kept) (simp add: counts_kept_refl)
  then show ?thesis
    by (auto simp: unblockWallet_def split: prod.splits option.splits)
qed

lemma cleanup_bucket_kept:
  "counts_kept bs (fst acc) \<Longrightarrow> counts_kept bs (fst (cleanup_bucket cutoff e acc))"
  by (cases acc; cases e)
     (auto simp: cleanup_bucket_def counts_kept_def delete_conv' split: if_splits)

lemma fold_cleanup_bucket_kept:
  "counts_kept bs (fst acc) \<Longrightarrow> counts_kept bs (fst (fold (cleanup_bucket cutoff) es acc))"
  by (induction es arbitrary: acc) (simp_all add: cleanup_bucket_kept)

lemma cleanupOldData_kept:
  "counts_kept (rateLimitBuckets st) (rateLimitBuckets (snd (cleanupOldData maxAge now st)))"
  using fold_cleanup_bucket_kept [of "rateLimitBuckets st" "(rateLimitBuckets st, 0)"
      "now - maxAge" "rateLimitBuckets st"]
  by (auto simp: cleanupOldData_def counts_kept_refl split: prod.splits)

lemma ratelimit_step_within:
  assumes "within_ceiling (rateLimitBuckets st)"
  shows "within_ceiling (rateLimitBuckets (ratelimit_step c st))"
proof -
  obtain now op where c: "c = (now, op)" by (cases c)
  show ?thesis
  proof (cases op)
    case (RecordUsage w a t am su)
    with c recordUsage_within [OF assms] show ?thesis by simp
  next
    case (CheckRateLimit w t)
    with c checkRateLimit_within [OF assms] show ?thesis by simp
  next
    case (UnblockWallet w)
    with c within_ceiling_kept [OF assms unblockWallet_kept] show ?thesis by simp
  next
    case (CleanupOldData maxAge)
    with c within_ceiling_kept [OF assms cleanupOldData_kept] show ?thesis by simp
  qed
qed

lemma ratelimit_run_within:
  "within_ceiling (rateLimitBuckets st) \<Longrightarrow> within_ceiling (rateLimitBuckets (ratelimit_run calls st))"
  unfolding ratelimit_run_def
  by (induction calls arbitrary: st) (simp_all add: ratelimit_step_within)

lemma checkRateLimit_at_ceiling:
  assumes "map_of (rateLimitBuckets st) (getBucketKey w t) = Some b"
    and "getMaxForType t \<le> rb_count b"
    and "now - rb_windowStart b < WINDOW_SIZE_MS"
  shows "\<not> allowed (fst (checkRateLimit w t now st))"
  using assms
  by (auto simp: checkRateLimit_def check_window_allowed current_bucket_def split: option.splits)

text \<open>
  Claim C6. After any list of calls of the limiter's functions, at any clock values, from
  the initial state, the bucket of every wallet and type has a count of at most the
  ceiling of the type, and the ceilings are 100 (request), 20 (payment) and 50 (execution).
  In any state, when the bucket's count has reached the ceiling and its window is not
  over, \<^verbatim>\<open>checkRateLimit\<close> returns \<^verbatim>\<open>allowed = false\<close>.
\<close>

theorem count_within_ceiling:
  "(\<forall>b. map_of (rateLimitBuckets (ratelimit_run calls ratelimit_init)) (getBucketKey w t) = Some b
        \<longrightarrow> rb_count b \<le> getMaxForType t)
   \<and> getMaxForType Request = 100 \<and> getMaxForType Payment = 20 \<and> getMaxForType Execution = 50
   \<and> (\<forall>b. map_of (rateLimitBuckets st) (getBucketKey w t) = Some b
           \<and> getMaxForType t \<le> rb_count b \<and> now - rb_windowStart b < WINDOW_SIZE_MS
        \<longrightarrow> \<not> allowed (fst (checkRateLimit w t now st)))"
proof -
  have "within_ceiling (rateLimitBuckets ratelimit_init)"
    by (simp add: within_ceiling_def ratelimit_init_def)
  from ratelimit_run_within [OF this, of calls]
  have a: "\<forall>b. map_of (rateLimitBuckets (ratelimit_run calls ratelimit_init)) (getBucketKey w t) = Some b
        \<longrightarrow> rb_count b \<le> getMaxForType t"
    by (simp add: within_ceiling_def)
  have b: "getMaxForType Request = 100 \<and> getMaxForType Payment = 20 \<and> getMaxForType Execution = 50"
    by (simp add: MAX_REQUESTS_PER_WINDOW_def MAX_PAYMENTS_PER_WINDOW_def
        MAX_EXECUTIONS_PER_WINDOW_def)
  from a b checkRateLimit_at_ceiling show ?thesis by blast
qed

lemma fold_replicate_Suc: "fold f (replicate (Suc m) x) s = f x (fold f (replicate m x) s)"
proof -
  have e: "replicate (Suc m) x = replicate m x @ [x]"
    by (simp add: replicate_append_same)
  show ?thesis unfolding e by simp
qed

lemma fill_bucket:
  "Suc n \<le> getMaxForType t \<Longrightarrow>
     rateLimitBuckets (ratelimit_run (replicate (Suc n) (now, RecordUsage w a t am su)) ratelimit_init)
       = [(getBucketKey w t, (new_bucket w t now None)\<lparr> rb_count := Suc n \<rparr>)]"
proof (induction n)
  case 0
  have "\<not> getMaxForType t \<le> rb_count (current_bucket w t now
            (map_of (rateLimitBuckets ratelimit_init) (getBucketKey w t)))"
    using 0 by (simp add: ratelimit_init_def current_bucket_def new_bucket_def)
  from recordUsage_accepted(2) [OF this, of a am su]
  show ?case
    by (simp add: ratelimit_run_def ratelimit_init_def current_bucket_def new_bucket_def)
next
  case (Suc n)
  let ?c = "(now, RecordUsage w a t am su)"
  define st where "st = ratelimit_run (replicate (Suc n) ?c) ratelimit_init"
  from Suc have bs: "rateLimitBuckets st
       = [(getBucketKey w t, (new_bucket w t now None)\<lparr> rb_count := Suc n \<rparr>)]"
    unfolding st_def by simp
  have run: "ratelimit_run (replicate (Suc (Suc n)) ?c) ratelimit_init = ratelimit_step ?c st"
    unfolding st_def ratelimit_run_def by (rule fold_replicate_Suc)
  have "\<not> getMaxForType t \<le> rb_count (current_bucket w t now
            (map_of (rateLimitBuckets st) (getBucketKey w t)))"
    using Suc.prems by (simp add: bs current_bucket_def new_bucket_def WINDOW_SIZE_MS_def)
  from recordUsage_accepted(2) [OF this, of a am su]
  have "rateLimitBuckets (ratelimit_step ?c st)
          = [(getBucketKey w t, (new_bucket w t now None)\<lparr> rb_count := Suc (Suc n) \<rparr>)]"
    by (simp add: bs current_bucket_def new_bucket_def WINDOW_SIZE_MS_def)
  with run show ?case by (simp only:)
qed

lemma demo_full_buckets:
  "rateLimitBuckets demo_full = [(getBucketKey demo_wallet Payment, demo_bucket)]"
  using fill_bucket [of 19 Payment 1000 demo_wallet "''agent''" None True]
  by (simp add: demo_full_def MAX_PAYMENTS_PER_WINDOW_def new_bucket_def demo_bucket_def)

theorem count_within_ceiling_witness:
  "map_of (rateLimitBuckets demo_full) (getBucketKey demo_wallet Payment) = Some demo_bucket
   \<and> rb_count demo_bucket = 20 \<and> getMaxForType Payment = 20
   \<and> 2000 - rb_windowStart demo_bucket < WINDOW_SIZE_MS
   \<and> \<not> allowed (fst (checkRateLimit demo_wallet Payment 2000 demo_full))"
proof -
  have a: "map_of (rateLimitBuckets demo_full) (getBucketKey demo_wallet Payment) = Some demo_bucket"
    by (simp add: demo_full_buckets)
  have b: "rb_count demo_bucket = 20" by (simp add: demo_bucket_def)
  have c: "2000 - rb_windowStart demo_bucket < WINDOW_SIZE_MS"
    by (simp add: demo_bucket_def WINDOW_SIZE_MS_def)
  from count_within_ceiling [of "replicate 20 (1000, RecordUsage demo_wallet ''agent'' Payment None True)"
      demo_wallet Payment demo_full 2000] a b c
  show ?thesis by (simp add: demo_full_def [symmetric])
qed








section \<open>Properties of dynamic pricing\<close>

lemma next_multiplier_bounded:
  assumes "MIN_PRICE_MULTIPLIER \<le> m" and "m \<le> MAX_PRICE_MULTIPLIER"
  shows "MIN_PRICE_MULTIPLIER \<le> next_multiplier r m \<and> next_multiplier r m \<le> MAX_PRICE_MULTIPLIER"
  using assms
  by (auto simp: next_multiplier_def MIN_PRICE_MULTIPLIER_def MAX_PRICE_MULTIPLIER_def)

lemma multipliers_bounded_update:
  assumes "multipliers_bounded ps"
    and "MIN_PRICE_MULTIPLIER \<le> ap_currentMultiplier p"
    and "ap_currentMultiplier p \<le> MAX_PRICE_MULTIPLIER"
  shows "multipliers_bounded (AList.update a p ps)"
  using assms by (auto simp: multipliers_bounded_def update_conv')

lemma updateDynamicPricing_agent:
  assumes "map_of (agentPricing st) a = Some p"
  shows "\<exists>r. map_of (agentPricing (updateDynamicPricing agentId now st)) a =
           Some (if a = agentId \<and> next_multiplier r (ap_currentMultiplier p) \<noteq> ap_currentMultiplier p
                 then p\<lparr> ap_currentMultiplier := next_multiplier r (ap_currentMultiplier p),
                         ap_lastUpdated := now \<rparr>
                 else p)"
proof (cases "map_of (agentPricing st) agentId")
  case None
  with assms show ?thesis
    by (intro exI [of _ 1]) (simp add: updateDynamicPricing_def next_multiplier_def)
next
  case (Some q)
  note q = this
  show ?thesis
  proof (cases "map_of (demandMetrics st) agentId")
    case None
    with assms q show ?thesis
      by (intro exI [of _ 1]) (simp add: updateDynamicPricing_def next_multiplier_def)
  next
    case (Some mt)
    define r where "r = (if dm_averageRequests mt > 0
                         then real (dm_requestCount mt) / dm_averageRequests mt else 1)"
    show ?thesis
    proof (cases "ap_dynamicPricing q \<and> \<not> now - ap_lastUpdated q < PRICE_UPDATE_INTERVAL_MS
                   \<and> next_multiplier r (ap_currentMultiplier q) \<noteq> ap_currentMultiplier q")
      case True
      then have "agentPricing (updateDynamicPricing agentId now st) =
                   AList.update agentId
                     (q\<lparr> ap_currentMultiplier := next_multiplier r (ap_currentMultiplier q),
                        ap_lastUpdated := now \<rparr>) (agentPricing st)"
        using q Some
        by (simp add: updateDynamicPricing_def Let_def r_def next_multiplier_def)
      with assms q True show ?thesis
        by (intro exI [of _ r]) (auto simp: update_conv')
    next
      case False
      then have "updateDynamicPricing agentId now st = st"
        using q Some
        by (auto simp: updateDynamicPricing_def Let_def r_def next_multiplier_def)
      with assms show ?thesis
        by (intro exI [of _ 1]) (simp add: next_multiplier_def)
    qed
  qed
qed

lemma recordRequest_agent:
  assumes "map_of (agentPricing st) a = Some p"
  shows "\<exists>r. map_of (agentPricing (recordRequest agentId w amount now st)) a =
           Some (if a = agentId \<and> next_multiplier r (ap_currentMultiplier p) \<noteq> ap_currentMultiplier p
                 then p\<lparr> ap_currentMultiplier := next_multiplier r (ap_currentMultiplier p),
                         ap_lastUpdated := now \<rparr>
                 else p)"
proof (cases "map_of (demandMetrics st) agentId")
  case None
  with assms show ?thesis
    by (intro exI [of _ 1]) (simp add: recordRequest_def next_multiplier_def)
next
  case (Some mt)
  then obtain st1 where r: "recordRequest agentId w amount now st = updateDynamicPricing agentId now st1"
    and s: "agentPricing st1 = agentPricing st"
    by (simp add: recordRequest_def Let_def)
  from updateDynamicPricing_agent [of st1 a p agentId now] assms s r
  show ?thesis by simp
qed

lemma recordRequest_dom:
  assumes "map_of (agentPricing (recordRequest agentId w amount now st)) a = Some p'"
  shows "\<exists>p. map_of (agentPricing st) a = Some p"
proof (rule ccontr)
  assume "\<not> ?thesis"
  then have n: "map_of (agentPricing st) a = None" by simp
  have u: "map_of (agentPricing (updateDynamicPricing agentId now s)) a = None"
    if "map_of (agentPricing s) a = None" for s
    using that
    by (auto simp: updateDynamicPricing_def Let_def update_conv' split: option.splits)
  have "map_of (agentPricing (recordRequest agentId w amount now st)) a = None"
    using n by (auto simp: recordRequest_def Let_def u split: option.splits)
  with assms show False by simp
qed

lemma recordRequest_bounded:
  assumes "multipliers_bounded (agentPricing st)"
  shows "multipliers_bounded (agentPricing (recordRequest agentId w amount now st))"
  unfolding multipliers_bounded_def
proof (intro allI impI)
  fix a p'
  assume h: "map_of (agentPricing (recordRequest agentId w amount now st)) a = Some p'"
  from recordRequest_dom [OF h] obtain p where p: "map_of (agentPricing st) a = Some p" by blast
  with assms have b: "MIN_PRICE_MULTIPLIER \<le> ap_currentMultiplier p"
    "ap_currentMultiplier p \<le> MAX_PRICE_MULTIPLIER"
    by (simp_all add: multipliers_bounded_def)
  from recordRequest_agent [OF p, of agentId w amount now] h
  obtain r where "p' = (if a = agentId \<and> next_multiplier r (ap_currentMultiplier p) \<noteq> ap_currentMultiplier p
                 then p\<lparr> ap_currentMultiplier := next_multiplier r (ap_currentMultiplier p),
                         ap_lastUpdated := now \<rparr>
                 else p)" by auto
  with b next_multiplier_bounded [OF b, of r]
  show "MIN_PRICE_MULTIPLIER \<le> ap_currentMultiplier p' \<and> ap_currentMultiplier p' \<le> MAX_PRICE_MULTIPLIER"
    by (simp split: if_splits)
qed

lemma registerAgentPricing_bounded:
  assumes "multipliers_bounded (agentPricing st)"
  shows "multipliers_bounded (agentPricing (snd (registerAgentPricing a opts now st)))"
  by (simp add: registerAgentPricing_def Let_def multipliers_bounded_update [OF assms]
      MIN_PRICE_MULTIPLIER_def MAX_PRICE_MULTIPLIER_def)

lemma updateAgentPricing_bounded:
  assumes "multipliers_bounded (agentPricing st)"
  shows "multipliers_bounded (agentPricing (snd (updateAgentPricing a ups now st)))"
proof (cases "map_of (agentPricing st) a")
  case None
  with assms show ?thesis by (simp add: updateAgentPricing_def)
next
  case (Some p)
  with assms have b: "MIN_PRICE_MULTIPLIER \<le> ap_currentMultiplier p"
    "ap_currentMultiplier p \<le> MAX_PRICE_MULTIPLIER"
    by (simp_all add: multipliers_bounded_def)
  obtain p' where u: "agentPricing (snd (updateAgentPricing a ups now st)) = AList.update a p' (agentPricing st)"
    and m: "ap_currentMultiplier p' = ap_currentMultiplier p"
    using Some by (simp add: updateAgentPricing_def Let_def split: option.splits)
  from multipliers_bounded_update [OF assms, of p' a] b m u show ?thesis by simp
qed

lemma pricing_step_bounded:
  assumes "multipliers_bounded (agentPricing st)"
  shows "multipliers_bounded (agentPricing (pricing_step c st))"
proof -
  obtain now op where c: "c = (now, op)" by (cases c)
  show ?thesis
  proof (cases op)
    case (RegisterAgentPricing a opts)
    with c registerAgentPricing_bounded [OF assms] show ?thesis by simp
  next
    case (RecordRequest a w amount)
    with c recordRequest_bounded [OF assms] show ?thesis by simp
  next
    case (UpdateAgentPricing a ups)
    with c updateAgentPricing_bounded [OF assms] show ?thesis by simp
  next
    case (CreateDiscountRule n t p mv ws vu)
    with c assms show ?thesis by (simp add: createDiscountRule_def Let_def)
  next
    case (DeactivateDiscountRule r)
    with c assms show ?thesis by (simp add: deactivateDiscountRule_def split: option.splits)
  qed
qed

lemma pricing_run_bounded:
  "multipliers_bounded (agentPricing st) \<Longrightarrow> multipliers_bounded (agentPricing (pricing_run calls st))"
  unfolding pricing_run_def
  by (induction calls arbitrary: st) (simp_all add: pricing_step_bounded)

text \<open>
  Claim C8. After any list of calls of the pricing functions, at any clock values, from the
  initial state, the \<^verbatim>\<open>currentMultiplier\<close> of every registered agent lies in [0.5, 3.0].
  \<^verbatim>\<open>registerAgentPricing\<close> sets it to 1.0, and one \<^verbatim>\<open>recordRequest\<close> (through
  \<^verbatim>\<open>updateDynamicPricing\<close>) leaves it as it is, or multiplies it by 1.1 capped at 3.0, or
  multiplies it by 0.95 with floor 0.5. Multipliers are exact reals here.
\<close>

theorem multiplier_in_range:
  "(\<forall>p. map_of (agentPricing (pricing_run calls pricing_init)) agentId = Some p
        \<longrightarrow> 0.5 \<le> ap_currentMultiplier p \<and> ap_currentMultiplier p \<le> 3.0)
   \<and> ap_currentMultiplier (fst (registerAgentPricing agentId options now st)) = 1.0
   \<and> (\<forall>p p'. map_of (agentPricing st) agentId = Some p
             \<and> map_of (agentPricing (recordRequest a w amount now st)) agentId = Some p'
        \<longrightarrow> ap_currentMultiplier p' = ap_currentMultiplier p
            \<or> ap_currentMultiplier p' = min 3.0 (ap_currentMultiplier p * 1.1)
            \<or> ap_currentMultiplier p' = max 0.5 (ap_currentMultiplier p * 0.95))"
proof -
  have "multipliers_bounded (agentPricing pricing_init)"
    by (simp add: multipliers_bounded_def pricing_init_def)
  from pricing_run_bounded [OF this, of calls]
  have a: "\<forall>p. map_of (agentPricing (pricing_run calls pricing_init)) agentId = Some p
        \<longrightarrow> 0.5 \<le> ap_currentMultiplier p \<and> ap_currentMultiplier p \<le> 3.0"
    by (simp add: multipliers_bounded_def MIN_PRICE_MULTIPLIER_def MAX_PRICE_MULTIPLIER_def)
  have b: "ap_currentMultiplier (fst (registerAgentPricing agentId options now st)) = 1.0"
    by (simp add: registerAgentPricing_def Let_def)
  have c: "ap_currentMultiplier p' = ap_currentMultiplier p
            \<or> ap_currentMultiplier p' = min 3.0 (ap_currentMultiplier p * 1.1)
            \<or> ap_currentMultiplier p' = max 0.5 (ap_currentMultiplier p * 0.95)"
    if h: "map_of (agentPricing st) agentId = Some p"
      "map_of (agentPricing (recordRequest a w amount now st)) agentId = Some p'" for p p'
  proof -
    from recordRequest_agent [OF h(1), of a w amount now] h(2)
    obtain r where "p' = (if agentId = a \<and> next_multiplier r (ap_currentMultiplier p) \<noteq> ap_currentMultiplier p
                 then p\<lparr> ap_currentMultiplier := next_multiplier r (ap_currentMultiplier p),
                         ap_lastUpdated := now \<rparr>
                 else p)" by auto
    then show ?thesis
      by (auto simp: next_multiplier_def MIN_PRICE_MULTIPLIER_def MAX_PRICE_MULTIPLIER_def
          split: if_splits)
  qed
  from a b c show ?thesis by blast
qed

lemma demo_quiet_eq:
  "demo_quiet =
     \<lparr> agentPricing = [(''agent'', demo_pricing)],
       demandMetrics = [(''agent'', \<lparr> dm_agentId = ''agent'', dm_requestCount = 1,
                          dm_windowStart = 0, dm_peakRequests = 1, dm_averageRequests = 0 \<rparr>)],
       pricingHistory = [(''agent'', [])], discountRules = [],
       walletVolume = [(''wallet'', 1)] \<rparr>"
  by (simp add: demo_quiet_def demo_pricing_calls_def pricing_run_def pricing_init_def
      registerAgentPricing_def demo_options_def demo_pricing_def BASE_PRICE_LAMPORTS_def
      recordRequest_def updateDynamicPricing_def Let_def DEMAND_WINDOW_MS_def
      PRICE_UPDATE_INTERVAL_MS_def)

lemma demo_busy_step: "demo_busy = recordRequest ''agent'' ''wallet'' 1 400000 demo_quiet"
  by (simp add: demo_busy_def demo_quiet_def demo_pricing_calls_def pricing_run_def)

lemma demo_busy_pricing:
  "map_of (agentPricing demo_busy) ''agent'' =
     Some (demo_pricing\<lparr> ap_currentMultiplier := 1.1, ap_lastUpdated := 400000 \<rparr>)"
  by (simp add: demo_busy_step demo_quiet_eq recordRequest_def updateDynamicPricing_def Let_def
      DEMAND_WINDOW_MS_def PRICE_UPDATE_INTERVAL_MS_def MAX_PRICE_MULTIPLIER_def
      demo_pricing_def)

theorem multiplier_in_range_witness:
  "map_of (agentPricing (pricing_run demo_pricing_calls pricing_init)) ''agent''
       = Some (demo_pricing\<lparr> ap_currentMultiplier := 1.1, ap_lastUpdated := 400000 \<rparr>)
   \<and> (0.5::real) \<le> 1.1 \<and> (1.1::real) \<le> 3.0
   \<and> map_of (agentPricing demo_quiet) ''agent'' = Some demo_pricing
   \<and> map_of (agentPricing (recordRequest ''agent'' ''wallet'' 1 400000 demo_quiet)) ''agent''
       = Some (demo_pricing\<lparr> ap_currentMultiplier := 1.1, ap_lastUpdated := 400000 \<rparr>)
   \<and> ap_currentMultiplier demo_pricing = 1
   \<and> (1.1::real) = min 3.0 (1 * 1.1)"
proof -
  have a: "map_of (agentPricing (pricing_run demo_pricing_calls pricing_init)) ''agent''
       = Some (demo_pricing\<lparr> ap_currentMultiplier := 1.1, ap_lastUpdated := 400000 \<rparr>)"
    using demo_busy_pricing by (simp add: demo_busy_def)
  have b: "map_of (agentPricing demo_quiet) ''agent'' = Some demo_pricing"
    by (simp add: demo_quiet_eq)
  have c: "map_of (agentPricing (recordRequest ''agent'' ''wallet'' 1 400000 demo_quiet)) ''agent''
       = Some (demo_pricing\<lparr> ap_currentMultiplier := 1.1, ap_lastUpdated := 400000 \<rparr>)"
    using demo_busy_pricing by (simp add: demo_busy_step)
  have d: "ap_currentMultiplier demo_pricing = 1" by (simp add: demo_pricing_def)
  from multiplier_in_range [of demo_pricing_calls "''agent''" demo_options 0 pricing_init]
  have "(0.5::real) \<le> 1.1 \<and> (1.1::real) \<le> 3.0" using a by simp
  with a b c d show ?thesis by simp
qed

text \<open>
  Claim C10. For an agent id with no pricing record, whatever the units and the wallet
  address, \<^verbatim>\<open>calculatePrice\<close> returns the value \<^verbatim>\<open>{price: 0, breakdown: {error: 1}}\<close>: the
  function has no other way to signal the missing record, and the price is the price 0
  that it returns for every agent of the free tier.
\<close>

theorem calculatePrice_unknown_agent:
  assumes "map_of (agentPricing st) agentId = None"
  shows "calculatePrice agentId units walletAddress now st
           = \<lparr> price = 0, breakdown = [(''error'', 1)] \<rparr>
     \<and> (\<forall>p. map_of (agentPricing st) freeId = Some p \<and> ap_tier p = Free \<longrightarrow>
           calculatePrice freeId units' walletAddress' now' st
             = \<lparr> price = 0, breakdown = [(''tier'', 0), (''free'', 1)] \<rparr>
           \<and> price (calculatePrice freeId units' walletAddress' now' st)
               = price (calculatePrice agentId units walletAddress now st))"
  using assms by (simp add: calculatePrice_def)

theorem calculatePrice_unknown_agent_witness:
  "map_of (agentPricing demo_free) ''ghost'' = None
   \<and> calculatePrice ''ghost'' (Some 3) (Some ''wallet'') 5 demo_free
       = \<lparr> price = 0, breakdown = [(''error'', 1)] \<rparr>
   \<and> map_option ap_tier (map_of (agentPricing demo_free) ''gratis'') = Some Free
   \<and> price (calculatePrice ''gratis'' (Some 3) (Some ''wallet'') 5 demo_free) = 0"
proof -
  have a: "map_of (agentPricing demo_free) ''ghost'' = None"
    by (simp add: demo_free_def registerAgentPricing_def pricing_init_def Let_def)
  have b: "map_option ap_tier (map_of (agentPricing demo_free) ''gratis'') = Some Free"
    by (simp add: demo_free_def registerAgentPricing_def pricing_init_def Let_def
        demo_free_options_def)
  from calculatePrice_unknown_agent [OF a, of "Some 3" "Some ''wallet''" 5 "''gratis''"
      "Some 3" "Some ''wallet''" 5] a b
  show ?thesis by auto
qed

end
